theory Spec2Isabelle
  imports Complex_Main "HOL-Library.Char_ord"
begin

section \<open>Scoring models of KrishiSahyog (ai\_models.py)\<close>

text \<open>
  The three analysis classes of \<^verbatim>\<open>ai_models.py\<close> are embedded here:
  \<^verbatim>\<open>CropHealthAnalyzer\<close>, \<^verbatim>\<open>PestDetector\<close> and \<^verbatim>\<open>SoilAnalyzer\<close>.
  Python floats are modelled as \<^typ>\<open>real\<close>: rounding, infinities and NaN are outside the
  model. The field \<^verbatim>\<open>analysis_timestamp\<close> (wall-clock time) is left out of the result
  records. Every exception the numpy calls of the source can raise is a value of
  \<open>py_error\<close>, and a function that can raise returns \<open>py_error + 'a\<close>.
\<close>

subsection \<open>Exceptions\<close>

datatype py_error = ValueError | TypeError | LinAlgError | KeyError

definition py_bind :: "py_error + 'a \<Rightarrow> ('a \<Rightarrow> py_error + 'b) \<Rightarrow> py_error + 'b" where
  "py_bind m f = (case m of Inl e \<Rightarrow> Inl e | Inr x \<Rightarrow> f x)"

subsection \<open>The numpy calls the models use\<close>

text \<open>
  An \<^verbatim>\<open>ndarray\<close> is its shape and its elements in row-major order; numpy keeps
  \<open>length (elems a) = prod_list (shape a)\<close>.
\<close>

record ndarray =
  shape :: "nat list"
  elems :: "real list"

definition wf_ndarray :: "ndarray \<Rightarrow> bool" where
  "wf_ndarray a = (length (elems a) = prod_list (shape a))"

text \<open>\<^verbatim>\<open>np.mean(xs)\<close> of a flat sequence; on an empty one numpy warns and gives NaN (no exception).\<close>

definition np_mean :: "real list \<Rightarrow> real" where
  "np_mean xs = sum_list xs / real (length xs)"

definition np_std :: "real list \<Rightarrow> real" where
  "np_std xs = sqrt (np_mean (map (\<lambda>x. (x - np_mean xs)\<^sup>2) xs))"

text \<open>\<^verbatim>\<open>np.max\<close> and \<^verbatim>\<open>np.min\<close> raise ValueError on a zero-size array.\<close>

fun np_max :: "real list \<Rightarrow> py_error + real" where
  "np_max [] = Inl ValueError"
| "np_max (x # xs) = Inr (fold max xs x)"

fun np_min :: "real list \<Rightarrow> py_error + real" where
  "np_min [] = Inl ValueError"
| "np_min (x # xs) = Inr (fold min xs x)"

text \<open>
  \<^verbatim>\<open>np.percentile(xs, q)\<close> with the default linear interpolation between the two order
  statistics around position \<open>q / 100 * (n - 1)\<close>.
\<close>

definition np_percentile :: "real list \<Rightarrow> real \<Rightarrow> real" where
  "np_percentile xs q =
     (let s = sort xs;
          n = length xs;
          pos = q / 100 * real (n - 1);
          lo = nat \<lfloor>pos\<rfloor>;
          hi = min (lo + 1) (n - 1)
      in s ! lo + (pos - real lo) * (s ! hi - s ! lo))"

text \<open>\<^verbatim>\<open>np.trapz(ys)\<close> with unit spacing.\<close>

fun np_trapz :: "real list \<Rightarrow> real" where
  "np_trapz (a # b # ys) = (a + b) / 2 + np_trapz (b # ys)"
| "np_trapz ys = 0"

text \<open>
  \<^verbatim>\<open>np.polyfit(np.arange(len(ys)), ys, 1)[0]\<close>: the slope of the least-squares line
  through the points \<open>(i, ys ! i)\<close>. numpy raises TypeError on an empty vector. With a
  single point the abscissa column of the design matrix is all zero, its scaling divides
  zero by zero and the least-squares solver is handed NaN; what the solver then does is
  not fixed by numpy, and the model takes its failure, LinAlgError. No property proved
  below depends on the single-point case.
\<close>

definition np_polyfit_slope :: "real list \<Rightarrow> py_error + real" where
  "np_polyfit_slope ys =
     (let n = length ys;
          xs = map real [0..<n];
          sx = sum_list xs;
          sy = sum_list ys;
          sxy = sum_list (map2 (*) xs ys);
          sxx = sum_list (map (\<lambda>x. x * x) xs)
      in if n = 0 then Inl TypeError
         else if n = 1 then Inl LinAlgError
         else Inr ((real n * sxy - sx * sy) / (real n * sxx - sx * sx)))"

text \<open>
  \<^verbatim>\<open>np.mean(data, axis=(0, 1))\<close> of a three-dimensional array of shape \<open>[h, w, b]\<close>:
  the mean spectrum, one value per band. With \<open>h * w = 0\<close> numpy yields NaN in every
  band (and warns); the model's quotient is then \<open>0\<close>, so the values of the model are
  those of the code only for cubes with at least one pixel.
\<close>

definition np_mean_axis01 :: "ndarray \<Rightarrow> real list" where
  "np_mean_axis01 a =
     (case shape a of
        [h, w, b] \<Rightarrow>
          map (\<lambda>k. sum_list (map (\<lambda>p. elems a ! (p * b + k)) [0..<h * w]) / real (h * w)) [0..<b]
      | _ \<Rightarrow> [])"

text \<open>
  Python's slice \<^verbatim>\<open>xs[start:stop]\<close>: a negative bound counts from the end, and bounds
  are clipped to the sequence.
\<close>

definition py_slice_bound :: "nat \<Rightarrow> int \<Rightarrow> nat" where
  "py_slice_bound n i = (if i < 0 then nat (max 0 (int n + i)) else min (nat i) n)"

definition py_slice :: "'a list \<Rightarrow> int \<Rightarrow> int \<Rightarrow> 'a list" where
  "py_slice xs start stop =
     (let a = py_slice_bound (length xs) start;
          b = py_slice_bound (length xs) stop
      in take (b - a) (drop a xs))"

subsection \<open>The random generator\<close>

text \<open>
  \<^verbatim>\<open>np.random\<close> is global mutable state. It is modelled by explicit state passing: the
  generator is the tape of the raw variates it will hand out next, and each call
  consumes the head of the tape. A cell is read as a standard normal deviate by
  \<^verbatim>\<open>normal\<close> and as a sample of the unit interval \<open>[0, 1)\<close> by \<^verbatim>\<open>uniform\<close>,
  \<^verbatim>\<open>randint\<close> and \<^verbatim>\<open>choice\<close>.
\<close>

type_synonym rng = "nat \<Rightarrow> real"

definition rng_tail :: "rng \<Rightarrow> rng" where
  "rng_tail g = (\<lambda>i. g (Suc i))"

definition unit_tape :: "rng \<Rightarrow> bool" where
  "unit_tape g = (\<forall>i. 0 \<le> g i \<and> g i < 1)"

text \<open>Two generators agree on the next \<open>n\<close> variates.\<close>

definition tapes_agree :: "nat \<Rightarrow> rng \<Rightarrow> rng \<Rightarrow> bool" where
  "tapes_agree n g1 g2 = (\<forall>i<n. g1 i = g2 i)"

definition random_normal :: "real \<Rightarrow> real \<Rightarrow> rng \<Rightarrow> real \<times> rng" where
  "random_normal mu sigma g = (mu + sigma * g 0, rng_tail g)"

definition random_uniform :: "real \<Rightarrow> real \<Rightarrow> rng \<Rightarrow> real \<times> rng" where
  "random_uniform low high g = (low + (high - low) * g 0, rng_tail g)"

text \<open>\<^verbatim>\<open>np.random.randint(low, high)\<close>: an integer of \<open>[low, high)\<close>.\<close>

definition random_randint :: "int \<Rightarrow> int \<Rightarrow> rng \<Rightarrow> int \<times> rng" where
  "random_randint low high g = (low + \<lfloor>real_of_int (high - low) * g 0\<rfloor>, rng_tail g)"

text \<open>\<^verbatim>\<open>np.random.choice(xs)\<close>: an element at a uniformly drawn position.\<close>

definition random_choice :: "'a list \<Rightarrow> rng \<Rightarrow> 'a \<times> rng" where
  "random_choice xs g = (xs ! nat \<lfloor>real (length xs) * g 0\<rfloor>, rng_tail g)"

text \<open>
  \<^verbatim>\<open>np.random.choice(xs, p=ps)\<close>: numpy builds the cumulative distribution of \<open>ps\<close> and
  returns the element at the position where a unit sample is inserted to the right of
  equal entries, which is the number of cumulative entries not above the sample.
\<close>

fun cumsum :: "real \<Rightarrow> real list \<Rightarrow> real list" where
  "cumsum acc [] = []"
| "cumsum acc (p # ps) = (acc + p) # cumsum (acc + p) ps"

definition random_choice_p :: "'a list \<Rightarrow> real list \<Rightarrow> rng \<Rightarrow> 'a \<times> rng" where
  "random_choice_p xs ps g =
     (xs ! length (takeWhile (\<lambda>c. c \<le> g 0) (cumsum 0 ps)), rng_tail g)"

subsection \<open>CropHealthAnalyzer\<close>

datatype index_value = IndexArray ndarray | IndexScalar real

text \<open>
  The six statistics of one index array, in the order of the source's list literal. On an
  empty array \<^verbatim>\<open>np.min\<close> raises ValueError, so the literal is never built.
\<close>

definition index_statistics :: "ndarray \<Rightarrow> py_error + real list" where
  "index_statistics a =
     (let xs = elems a
      in py_bind (np_min xs) (\<lambda>mn.
         py_bind (np_max xs) (\<lambda>mx.
         Inr [np_mean xs, np_std xs, np_percentile xs 25, np_percentile xs 75, mn, mx])))"

text \<open>The loop over \<^verbatim>\<open>indices.items()\<close>, in the dictionary's insertion order.\<close>

fun index_loop :: "real list \<Rightarrow> (string \<times> index_value) list \<Rightarrow> py_error + real list" where
  "index_loop features [] = Inr features"
| "index_loop features ((key, IndexArray a) # rest) =
     py_bind (index_statistics a) (\<lambda>stats. index_loop (features @ stats) rest)"
| "index_loop features ((key, IndexScalar v) # rest) = index_loop features rest"

definition calculate_red_edge_slope :: "real list \<Rightarrow> py_error + real" where
  "calculate_red_edge_slope spectrum =
     (let red_edge_start = min 60 (int (length spectrum) - 10);
          red_edge_end = min 70 (int (length spectrum))
      in if red_edge_end > red_edge_start
         then np_polyfit_slope (py_slice spectrum red_edge_start red_edge_end)
         else Inr 0)"

definition extract_health_features ::
  "ndarray \<Rightarrow> (string \<times> index_value) list \<Rightarrow> py_error + real list" where
  "extract_health_features data indices =
     py_bind (index_loop [] indices) (\<lambda>features.
       if length (shape data) = 3 then
         let avg_spectrum = np_mean_axis01 data
         in py_bind (calculate_red_edge_slope avg_spectrum) (\<lambda>red_edge_slope.
            let spectral_auc = np_trapz avg_spectrum
            in py_bind (np_max (take 50 avg_spectrum)) (\<lambda>blue_peak.
               py_bind (np_max (py_slice avg_spectrum 50 100)) (\<lambda>green_peak.
               py_bind (np_min (py_slice avg_spectrum 100 150)) (\<lambda>red_absorption.
               py_bind (np_max (drop 150 avg_spectrum)) (\<lambda>nir_peak.
               Inr (features @ [red_edge_slope, spectral_auc]
                    @ [blue_peak, green_peak, red_absorption, nir_peak]))))))
       else Inr features)"

definition analyze_chlorophyll_content :: "real list \<Rightarrow> rng \<Rightarrow> real \<times> rng" where
  "analyze_chlorophyll_content features g =
     (if length features > 0 then
        let ndvi_mean = features ! 0;
            chlorophyll = min 100 (max 0 ((ndvi_mean + 0.3) * 100));
            (noise, g') = random_normal 0 5 g
        in (max 0 (min 100 (chlorophyll + noise)), g')
      else (75, g))"

definition analyze_water_stress :: "real list \<Rightarrow> rng \<Rightarrow> real \<times> rng" where
  "analyze_water_stress features g =
     (if length features > 6 then
        let ndvi_std = features ! 1;
            water_stress = min 100 (ndvi_std * 200);
            (baseline, g') = random_uniform 10 30 g
        in (max 0 (min 100 (water_stress + baseline)), g')
      else (20, g))"

definition analyze_nutrient_deficiency :: "real list \<Rightarrow> rng \<Rightarrow> real \<times> rng" where
  "analyze_nutrient_deficiency features g =
     (if length features > 0 then
        let chlorophyll_proxy = features ! 0;
            nutrient_deficiency = max 0 ((1 - chlorophyll_proxy) * 50);
            (variation, g') = random_uniform 5 15 g
        in (max 0 (min 100 (nutrient_deficiency + variation)), g')
      else (15, g))"

definition analyze_disease_risk :: "real list \<Rightarrow> rng \<Rightarrow> real \<times> rng" where
  "analyze_disease_risk features g =
     (if length features > 1 then
        let spectral_variability = features ! 1;
            disease_risk = min 50 (spectral_variability * 100);
            (baseline, g') = random_uniform 5 15 g
        in (max 0 (min 100 (disease_risk + baseline)), g')
      else (12, g))"

definition calculate_overall_health_score :: "real \<Rightarrow> real \<Rightarrow> real \<Rightarrow> real \<Rightarrow> real" where
  "calculate_overall_health_score chlorophyll water_stress nutrient_deficiency disease_risk =
     (let w_chlorophyll = 0.4;
          w_water_stress = 0.25;
          w_nutrient_deficiency = 0.2;
          w_disease_risk = 0.15;
          health_score =
            w_chlorophyll * chlorophyll
            + w_water_stress * (100 - water_stress)
            + w_nutrient_deficiency * (100 - nutrient_deficiency)
            + w_disease_risk * (100 - disease_risk)
      in max 0 (min 100 health_score))"

definition get_health_status :: "real \<Rightarrow> string" where
  "get_health_status overall =
     (if overall \<ge> 90 then ''excellent''
      else if overall \<ge> 70 then ''healthy''
      else if overall \<ge> 50 then ''attention_needed''
      else ''poor'')"

definition generate_health_recommendations ::
  "real \<Rightarrow> real \<Rightarrow> real \<Rightarrow> real \<Rightarrow> real \<Rightarrow> string list" where
  "generate_health_recommendations chlorophyll water_stress nutrient_deficiency disease_risk overall =
     (let r0 = [];
          r1 = (if chlorophyll < 60
                then r0 @ [''Consider nitrogen fertilizer application to improve chlorophyll content'']
                else r0);
          r2 = (if water_stress > 40
                then r1 @ [''Implement irrigation or water management strategies'']
                else r1);
          r3 = (if nutrient_deficiency > 30
                then r2 @ [''Conduct soil test and apply appropriate fertilizers'']
                else r2);
          r4 = (if disease_risk > 25
                then r3 @ [''Monitor for disease symptoms and consider preventive treatments'']
                else r3);
          r5 = (if overall < 50
                then r4 @ [''Immediate attention required - conduct field inspection'']
                else if overall < 70
                then r4 @ [''Monitor closely and consider management interventions'']
                else r4 @ [''Continue current management practices''])
      in if r5 = [] then r5 @ [''Field appears healthy - maintain current practices''] else r5)"

record health_result =
  chlorophyll_content :: real
  water_stress :: real
  nutrient_deficiency :: real
  disease_risk :: real
  overall_score :: real
  health_status :: string
  recommendations :: "string list"

text \<open>The record returned by the \<^verbatim>\<open>except\<close> branch of \<^verbatim>\<open>analyze\<close>.\<close>

definition default_health_result :: health_result where
  "default_health_result =
     \<lparr>chlorophyll_content = 75, water_stress = 25, nutrient_deficiency = 15,
      disease_risk = 12, overall_score = 78, health_status = ''healthy'',
      recommendations = [''Monitor field conditions'', ''Continue current management practices'']\<rparr>"

text \<open>
  The body of the \<^verbatim>\<open>try\<close> block. Only the feature extraction can raise, and it runs
  before the first draw from the generator.
\<close>

definition analyze_try ::
  "ndarray \<Rightarrow> (string \<times> index_value) list \<Rightarrow> rng \<Rightarrow> py_error + (health_result \<times> rng)" where
  "analyze_try data indices g =
     py_bind (extract_health_features data indices) (\<lambda>features.
       let (chl, g1) = analyze_chlorophyll_content features g;
           (ws, g2) = analyze_water_stress features g1;
           (nd, g3) = analyze_nutrient_deficiency features g2;
           (dr, g4) = analyze_disease_risk features g3;
           overall = calculate_overall_health_score chl ws nd dr;
           recs = generate_health_recommendations chl ws nd dr overall
       in Inr (\<lparr>chlorophyll_content = chl, water_stress = ws, nutrient_deficiency = nd,
                disease_risk = dr, overall_score = overall,
                health_status = get_health_status overall,
                recommendations = recs\<rparr>, g4))"

definition analyze :: "ndarray \<Rightarrow> (string \<times> index_value) list \<Rightarrow> rng \<Rightarrow> health_result \<times> rng" where
  "analyze data indices g =
     (case analyze_try data indices g of
        Inr r \<Rightarrow> r
      | Inl e \<Rightarrow> (default_health_result, g))"

subsection \<open>SoilAnalyzer\<close>

definition extract_soil_features :: "ndarray \<Rightarrow> py_error + real list" where
  "extract_soil_features data =
     (if length (shape data) = 3 then
        let avg_spectrum = np_mean_axis01 data
        in py_bind (np_max avg_spectrum) (\<lambda>mx.
           py_bind (np_min avg_spectrum) (\<lambda>mn.
           Inr [np_mean avg_spectrum, np_std avg_spectrum, mx, mn, np_trapz avg_spectrum]))
      else Inr [0.5, 0.1, 0.8, 0.1, 50])"

definition estimate_ph_level :: "real list \<Rightarrow> rng \<Rightarrow> real \<times> rng" where
  "estimate_ph_level features g =
     (let (noise, g') = random_normal 0 0.5 g;
          base_ph = 6.5 + noise
      in (max 4 (min 8.5 base_ph), g'))"

definition estimate_organic_matter :: "real list \<Rightarrow> rng \<Rightarrow> real \<times> rng" where
  "estimate_organic_matter features g =
     (let (noise, g') = random_normal 0 1 g;
          base_om = 3.5 + noise
      in (max 1 (min 8 base_om), g'))"

definition estimate_moisture_content :: "real list \<Rightarrow> rng \<Rightarrow> real \<times> rng" where
  "estimate_moisture_content features g =
     (let (noise, g') = random_normal 0 15 g;
          base_moisture = 45 + noise
      in (max 0 (min 100 base_moisture), g'))"

definition estimate_nitrogen_level :: "real list \<Rightarrow> rng \<Rightarrow> real \<times> rng" where
  "estimate_nitrogen_level features g =
     (let (noise, g') = random_normal 0 15 g;
          base_n = 70 + noise
      in (max 0 (min 100 base_n), g'))"

definition estimate_phosphorus_level :: "real list \<Rightarrow> rng \<Rightarrow> real \<times> rng" where
  "estimate_phosphorus_level features g =
     (let (noise, g') = random_normal 0 12 g;
          base_p = 65 + noise
      in (max 0 (min 100 base_p), g'))"

definition estimate_potassium_level :: "real list \<Rightarrow> rng \<Rightarrow> real \<times> rng" where
  "estimate_potassium_level features g =
     (let (noise, g') = random_normal 0 10 g;
          base_k = 68 + noise
      in (max 0 (min 100 base_k), g'))"

definition generate_soil_recommendations ::
  "real \<Rightarrow> real \<Rightarrow> real \<Rightarrow> real \<Rightarrow> real \<Rightarrow> real \<Rightarrow> string list" where
  "generate_soil_recommendations ph organic_matter moisture nitrogen phosphorus potassium =
     (let r0 = [];
          r1 = (if ph < 6.0 then r0 @ [''Consider lime application to raise pH'']
                else if ph > 7.5 then r0 @ [''Consider sulfur application to lower pH'']
                else r0);
          r2 = (if organic_matter < 3.0
                then r1 @ [''Increase organic matter with compost or cover crops'']
                else r1);
          r3 = (if moisture < 30 then r2 @ [''Implement irrigation to improve moisture levels'']
                else if moisture > 80 then r2 @ [''Improve drainage to prevent waterlogging'']
                else r2);
          r4 = (if nitrogen < 50 then r3 @ [''Apply nitrogen fertilizer''] else r3);
          r5 = (if phosphorus < 40 then r4 @ [''Apply phosphorus fertilizer''] else r4);
          r6 = (if potassium < 45 then r5 @ [''Apply potassium fertilizer''] else r5)
      in if r6 = [] then r6 @ [''Soil conditions are within optimal ranges''] else r6)"

record soil_result =
  ph_level :: real
  organic_matter :: real
  moisture_content :: real
  nitrogen_level :: real
  phosphorus_level :: real
  potassium_level :: real
  soil_recommendations :: "string list"

definition default_soil_result :: soil_result where
  "default_soil_result =
     \<lparr>ph_level = 6.8, organic_matter = 4.2, moisture_content = 67, nitrogen_level = 75,
      phosphorus_level = 68, potassium_level = 72,
      soil_recommendations = [''Monitor soil conditions regularly'']\<rparr>"

definition soil_analyze_try :: "ndarray \<Rightarrow> rng \<Rightarrow> py_error + (soil_result \<times> rng)" where
  "soil_analyze_try data g =
     py_bind (extract_soil_features data) (\<lambda>soil_features.
       let (ph, g1) = estimate_ph_level soil_features g;
           (om, g2) = estimate_organic_matter soil_features g1;
           (mc, g3) = estimate_moisture_content soil_features g2;
           (nl, g4) = estimate_nitrogen_level soil_features g3;
           (pl, g5) = estimate_phosphorus_level soil_features g4;
           (kl, g6) = estimate_potassium_level soil_features g5;
           recs = generate_soil_recommendations ph om mc nl pl kl
       in Inr (\<lparr>ph_level = ph, organic_matter = om, moisture_content = mc,
                nitrogen_level = nl, phosphorus_level = pl, potassium_level = kl,
                soil_recommendations = recs\<rparr>, g6))"

definition soil_analyze :: "ndarray \<Rightarrow> rng \<Rightarrow> soil_result \<times> rng" where
  "soil_analyze data g =
     (case soil_analyze_try data g of
        Inr r \<Rightarrow> r
      | Inl e \<Rightarrow> (default_soil_result, g))"

subsection \<open>PestDetector\<close>

text \<open>\<^verbatim>\<open>str.replace\<close> on single characters and \<^verbatim>\<open>str.title\<close>, for ASCII text.\<close>

definition is_lower_char :: "char \<Rightarrow> bool" where
  "is_lower_char c = (CHR ''a'' \<le> c \<and> c \<le> CHR ''z'')"

definition is_upper_char :: "char \<Rightarrow> bool" where
  "is_upper_char c = (CHR ''A'' \<le> c \<and> c \<le> CHR ''Z'')"

definition to_upper_char :: "char \<Rightarrow> char" where
  "to_upper_char c = (if is_lower_char c then char_of (of_char c - (32::nat)) else c)"

definition to_lower_char :: "char \<Rightarrow> char" where
  "to_lower_char c = (if is_upper_char c then char_of (of_char c + (32::nat)) else c)"

definition py_replace :: "char \<Rightarrow> char \<Rightarrow> string \<Rightarrow> string" where
  "py_replace a b s = map (\<lambda>c. if c = a then b else c) s"

fun py_title_from :: "bool \<Rightarrow> string \<Rightarrow> string" where
  "py_title_from prev_cased [] = []"
| "py_title_from prev_cased (c # cs) =
     (if is_lower_char c \<or> is_upper_char c
      then (if prev_cased then to_lower_char c else to_upper_char c) # py_title_from True cs
      else c # py_title_from False cs)"

definition py_title :: "string \<Rightarrow> string" where
  "py_title s = py_title_from False s"

record pest_info =
  spectral_signature :: string
  typical_locations :: string
  severity_factors :: "string list"

definition pest_database :: "(string \<times> pest_info) list" where
  "pest_database =
     [(''aphids'', \<lparr>spectral_signature = ''green_yellow_stress'',
         typical_locations = ''leaf_undersides'',
         severity_factors = [''density'', ''spread_rate'']\<rparr>),
      (''corn_borer'', \<lparr>spectral_signature = ''internal_damage'',
         typical_locations = ''stalk_entry_points'',
         severity_factors = [''tunnel_length'', ''plant_stage'']\<rparr>),
      (''leaf_rust'', \<lparr>spectral_signature = ''orange_red_pustules'',
         typical_locations = ''leaf_surfaces'',
         severity_factors = [''pustule_density'', ''leaf_coverage'']\<rparr>),
      (''spider_mites'', \<lparr>spectral_signature = ''stippling_yellowing'',
         typical_locations = ''leaf_surfaces'',
         severity_factors = [''coverage_area'', ''population_density'']\<rparr>)]"

definition severities :: "string list" where
  "severities = [''Low'', ''Medium'', ''High'']"

definition confidence_ranges :: "(string \<times> real \<times> real) list" where
  "confidence_ranges = [(''Low'', (0.6, 0.8)), (''Medium'', (0.7, 0.9)), (''High'', (0.8, 0.95))]"

definition pest_recommendations :: "(string \<times> string list) list" where
  "pest_recommendations =
     [(''aphids'', [''Monitor population levels'', ''Consider beneficial insects release'',
                    ''Apply targeted insecticide if needed'']),
      (''corn_borer'', [''Immediate treatment recommended'', ''Apply approved insecticide'',
                        ''Monitor neighboring plants'']),
      (''leaf_rust'', [''Apply fungicide treatment'', ''Remove infected plant material'',
                       ''Improve air circulation'']),
      (''spider_mites'', [''Increase humidity levels'', ''Apply miticide treatment'',
                          ''Monitor for natural predators''])]"

text \<open>A dictionary subscript \<^verbatim>\<open>d[k]\<close> raises KeyError on a missing key.\<close>

definition py_getitem :: "('k \<times> 'v) list \<Rightarrow> 'k \<Rightarrow> py_error + 'v" where
  "py_getitem d k = (case map_of d k of None \<Rightarrow> Inl KeyError | Some v \<Rightarrow> Inr v)"

definition py_get :: "('k \<times> 'v) list \<Rightarrow> 'k \<Rightarrow> 'v \<Rightarrow> 'v" where
  "py_get d k dflt = (case map_of d k of None \<Rightarrow> dflt | Some v \<Rightarrow> v)"

record pest_detection =
  det_type :: string
  confidence :: real
  severity :: string
  location_x :: real
  location_y :: real
  recommendation :: string

text \<open>
  \<^verbatim>\<open>_create_pest_detection\<close>. The draws are made in the order of the source: severity,
  confidence, then, inside the dictionary literal, the two coordinates and the
  recommendation.
\<close>

definition create_pest_detection ::
  "string \<Rightarrow> nat \<Rightarrow> nat \<Rightarrow> rng \<Rightarrow> py_error + (pest_detection \<times> rng)" where
  "create_pest_detection pest_type height width g =
     (let (sev, g1) = random_choice_p severities [0.4, 0.4, 0.2] g
      in py_bind (py_getitem confidence_ranges sev) (\<lambda>conf_range.
         let (conf, g2) = random_uniform (fst conf_range) (snd conf_range) g1;
             (x, g3) = random_uniform 0 (real width) g2;
             (y, g4) = random_uniform 0 (real height) g3;
             (rec, g5) = random_choice (py_get pest_recommendations pest_type [''Monitor closely'']) g4
         in Inr (\<lparr>det_type = py_title (py_replace (CHR ''_'') (CHR '' '') pest_type),
                  confidence = conf, severity = sev, location_x = x, location_y = y,
                  recommendation = rec\<rparr>, g5)))"

text \<open>The loop \<^verbatim>\<open>for _ in range(num_detections)\<close>.\<close>

fun detect_loop ::
  "nat \<Rightarrow> nat \<Rightarrow> nat \<Rightarrow> pest_detection list \<Rightarrow> rng \<Rightarrow> py_error + (pest_detection list \<times> rng)" where
  "detect_loop 0 height width detections g = Inr (detections, g)"
| "detect_loop (Suc k) height width detections g =
     (let (pest_type, g1) = random_choice (map fst pest_database) g
      in py_bind (create_pest_detection pest_type height width g1) (\<lambda>(detection, g2).
         detect_loop k height width (detections @ [detection]) g2))"

text \<open>
  \<^verbatim>\<open>list.sort(key=..., reverse=True)\<close>: the keys of all elements are computed first
  (a failing key aborts the sort), then the list is reversed, sorted stably by
  ascending key, and reversed again.
\<close>

fun py_mapM :: "('a \<Rightarrow> py_error + 'b) \<Rightarrow> 'a list \<Rightarrow> py_error + 'b list" where
  "py_mapM f [] = Inr []"
| "py_mapM f (x # xs) = py_bind (f x) (\<lambda>y. py_bind (py_mapM f xs) (\<lambda>ys. Inr (y # ys)))"

definition py_sort_reverse :: "('a \<Rightarrow> py_error + int) \<Rightarrow> 'a list \<Rightarrow> py_error + 'a list" where
  "py_sort_reverse key xs =
     py_bind (py_mapM key xs) (\<lambda>keys.
       Inr (map snd (rev (sort_key fst (rev (zip keys xs))))))"

definition severity_order :: "(string \<times> int) list" where
  "severity_order = [(''High'', 3), (''Medium'', 2), (''Low'', 1)]"

text \<open>\<^verbatim>\<open>height, width = hyperspectral_data.shape[:2]\<close> raises ValueError unless two values are unpacked.\<close>

definition unpack_height_width :: "ndarray \<Rightarrow> py_error + (nat \<times> nat)" where
  "unpack_height_width data =
     (case take 2 (shape data) of
        [height, width] \<Rightarrow> Inr (height, width)
      | _ \<Rightarrow> Inl ValueError)"

definition detect_try :: "ndarray \<Rightarrow> rng \<Rightarrow> py_error + (pest_detection list \<times> rng)" where
  "detect_try data g =
     py_bind (unpack_height_width data) (\<lambda>(height, width).
       let (num_detections, g1) = random_randint 0 4 g
       in py_bind (detect_loop (nat num_detections) height width [] g1) (\<lambda>(detections, g2).
          py_bind (py_sort_reverse (\<lambda>x. py_getitem severity_order (severity x)) detections)
            (\<lambda>sorted_detections. Inr (sorted_detections, g2))))"

text \<open>
  With unit samples on the tape the only exception of the body is the failed unpacking,
  which happens before the first draw; the generator returned with the empty list is
  therefore the one \<^verbatim>\<open>detect\<close> was entered with.
\<close>

definition detect :: "ndarray \<Rightarrow> rng \<Rightarrow> pest_detection list \<times> rng" where
  "detect data g =
     (case detect_try data g of
        Inr r \<Rightarrow> r
      | Inl e \<Rightarrow> ([], g))"

text \<open>
  The list \<^verbatim>\<open>detections\<close> as the loop of \<^verbatim>\<open>detect\<close> leaves it, before the sort: the
  detections in the order of their generation (empty when the body raises before or
  inside the loop).
\<close>

definition generated_detections :: "ndarray \<Rightarrow> rng \<Rightarrow> pest_detection list" where
  "generated_detections data g =
     (case unpack_height_width data of
        Inl e \<Rightarrow> []
      | Inr (height, width) \<Rightarrow>
          (case detect_loop (nat (fst (random_randint 0 4 g))) height width []
                  (snd (random_randint 0 4 g)) of
             Inl e \<Rightarrow> []
           | Inr (detections, g') \<Rightarrow> detections))"

text \<open>
  A cube of the size of the repository's simulated data: 512 by 512 pixels on the
  120-band grid, with reflectance 0.5 everywhere.
\<close>

definition flat_field_cube :: ndarray where
  "flat_field_cube = \<lparr>shape = [512, 512, 120], elems = replicate (512 * 512 * 120) (1 / 2)\<rparr>"

text \<open>
  What a detection built on a \<open>height\<close> by \<open>width\<close> image satisfies: its severity is
  one of the three tiers, its confidence lies in the band of its tier, and its location
  lies within the image, in pixels.
\<close>

definition detection_well_formed :: "nat \<Rightarrow> nat \<Rightarrow> pest_detection \<Rightarrow> bool" where
  "detection_well_formed h w d =
     ((severity d = ''Low'' \<and> 0.6 \<le> confidence d \<and> confidence d < 0.8
       \<or> severity d = ''Medium'' \<and> 0.7 \<le> confidence d \<and> confidence d < 0.9
       \<or> severity d = ''High'' \<and> 0.8 \<le> confidence d \<and> confidence d < 0.95)
      \<and> 0 \<le> location_x d \<and> location_x d \<le> real w
      \<and> 0 \<le> location_y d \<and> location_y d \<le> real h)"

text \<open>A generator of unit samples that makes the first detection Low and the next two High.\<close>

definition mixed_tape :: rng where
  "mixed_tape = (\<lambda>i. if i = 2 then 1 / 10 else if i = 10 then 1 / 2 else 9 / 10)"

subsection \<open>The specification's severity tiers\<close>

text \<open>The order of the tiers as the specification words it: High above Medium above Low.\<close>

definition severity_tier :: "string \<Rightarrow> nat" where
  "severity_tier s =
     (if s = ''High'' then 3 else if s = ''Medium'' then 2 else if s = ''Low'' then 1 else 0)"

subsection \<open>The specification's overall score\<close>

text \<open>The weighted sum as the specification words it, clamped to \<open>[0, 100]\<close>.\<close>

definition spec_clamp :: "real \<Rightarrow> real \<Rightarrow> real \<Rightarrow> real" where
  "spec_clamp lo hi x = (if x < lo then lo else if x > hi then hi else x)"

definition spec_overall_score :: "real \<Rightarrow> real \<Rightarrow> real \<Rightarrow> real \<Rightarrow> real" where
  "spec_overall_score c w n d =
     spec_clamp 0 100 (c * 0.4 + (100 - w) * 0.25 + (100 - n) * 0.2 + (100 - d) * 0.15)"

section \<open>Verified properties\<close>

text \<open>
  C1. For all chlorophyll, water stress, nutrient deficiency and disease risk values the
  overall health score of \<^verbatim>\<open>_calculate_overall_health_score\<close> is the weighted sum
  chlorophyll * 0.4 + (100 - water\_stress) * 0.25 + (100 - nutrient\_deficiency) * 0.2 +
  (100 - disease\_risk) * 0.15, clamped to the interval from 0 to 100.
\<close>

theorem overall_health_score_weighted_sum:
  "calculate_overall_health_score c w n d = spec_overall_score c w n d"
proof -
  have sum_eq: "0.4 * c + 0.25 * (100 - w) + 0.2 * (100 - n) + 0.15 * (100 - d)
      = c * 0.4 + (100 - w) * 0.25 + (100 - n) * 0.2 + (100 - d) * 0.15"
    by (simp only: mult.commute)
  have clamp_eq: "max 0 (min 100 x) = spec_clamp 0 100 x" for x :: real
    by (simp add: spec_clamp_def max_def min_def)
  show ?thesis
    unfolding calculate_overall_health_score_def spec_overall_score_def Let_def
    by (simp only: sum_eq clamp_eq)
qed

subsection \<open>Exceptions in the feature extraction\<close>

lemma py_bind_Inl [simp]: "py_bind (Inl e) f = Inl e"
  by (simp add: py_bind_def)

lemma py_bind_Inr [simp]: "py_bind (Inr x) f = f x"
  by (simp add: py_bind_def)

lemma py_bind_raises: "(\<And>x. \<exists>e. f x = Inl e) \<Longrightarrow> \<exists>e. py_bind m f = Inl e"
  by (cases m) simp_all

lemma length_np_mean_axis01: "shape a = [h, w, b] \<Longrightarrow> length (np_mean_axis01 a) = b"
  by (simp add: np_mean_axis01_def)

lemma np_max_nonempty: "xs \<noteq> [] \<Longrightarrow> \<exists>v. np_max xs = Inr v"
  by (cases xs) auto

lemma np_min_nonempty: "xs \<noteq> [] \<Longrightarrow> \<exists>v. np_min xs = Inr v"
  by (cases xs) auto

lemma length_py_slice_nonneg:
  "0 \<le> a \<Longrightarrow> 0 \<le> b \<Longrightarrow>
   length (py_slice xs a b) = min (nat b) (length xs) - min (nat a) (length xs)"
  by (auto simp: py_slice_def py_slice_bound_def Let_def)

text \<open>
  The NIR peak is taken over \<^verbatim>\<open>avg_spectrum[150:]\<close>. With at most 150 bands that slice
  is empty and \<^verbatim>\<open>np.max\<close> raises, whatever the earlier steps did.
\<close>

lemma extract_health_features_raises:
  assumes "shape data = [h, w, b]" and "b \<le> 150"
  shows "\<exists>e. extract_health_features data indices = Inl e"
proof -
  have "drop 150 (np_mean_axis01 data) = []"
    using assms by (simp add: length_np_mean_axis01)
  then have nir: "np_max (drop 150 (np_mean_axis01 data)) = Inl ValueError"
    by simp
  show ?thesis
    unfolding extract_health_features_def Let_def
    apply (rule py_bind_raises)
    apply (simp add: assms(1) nir)
    apply (rule py_bind_raises)+
    apply simp
    done
qed

lemma red_edge_slope_ok:
  assumes "20 \<le> length spectrum"
  shows "\<exists>v. calculate_red_edge_slope spectrum = Inr v"
proof -
  let ?n = "int (length spectrum)"
  have len: "length (py_slice spectrum (min 60 (?n - 10)) (min 70 ?n)) = 10"
    using assms by (subst length_py_slice_nonneg) auto
  show ?thesis
    unfolding calculate_red_edge_slope_def Let_def np_polyfit_slope_def
    using len by auto
qed

text \<open>
  Between 51 and 100 bands the first exception is the ValueError of \<^verbatim>\<open>np.min\<close> on the
  empty slice \<^verbatim>\<open>avg_spectrum[100:150]\<close>.
\<close>

lemma extract_health_features_ValueError:
  assumes sh: "shape data = [h, w, b]" and lo: "51 \<le> b" and hi: "b \<le> 100"
    and idx: "index_loop [] indices = Inr fs"
  shows "extract_health_features data indices = Inl ValueError"
proof -
  let ?avg = "np_mean_axis01 data"
  have len: "length ?avg = b" using sh by (rule length_np_mean_axis01)
  obtain s where s: "calculate_red_edge_slope ?avg = Inr s"
    using red_edge_slope_ok [of ?avg] len lo by auto
  have "?avg \<noteq> []" using len lo by auto
  then have "take 50 ?avg \<noteq> []" by simp
  then obtain p1 where p1: "np_max (take 50 ?avg) = Inr p1"
    using np_max_nonempty by blast
  have "length (py_slice ?avg 50 100) = b - 50"
    using len lo hi by (subst length_py_slice_nonneg) auto
  then have "py_slice ?avg 50 100 \<noteq> []" using lo by auto
  then obtain p2 where p2: "np_max (py_slice ?avg 50 100) = Inr p2"
    using np_max_nonempty by blast
  have "length (py_slice ?avg 100 150) = 0"
    using len lo hi by (subst length_py_slice_nonneg) auto
  then have p3: "np_min (py_slice ?avg 100 150) = Inl ValueError" by simp
  show ?thesis
    unfolding extract_health_features_def Let_def
    by (simp add: idx sh s p1 p2 p3)
qed

lemma analyze_try_raises:
  "extract_health_features data indices = Inl e \<Longrightarrow> analyze_try data indices g = Inl e"
  by (simp add: analyze_try_def)

subsection \<open>Failing closed\<close>

text \<open>
  C2. \<^verbatim>\<open>CropHealthAnalyzer.analyze\<close>, \<^verbatim>\<open>SoilAnalyzer.analyze\<close> and
  \<^verbatim>\<open>PestDetector.detect\<close> never propagate an exception: they are total functions into
  their result types, and whenever the body of the \<^verbatim>\<open>try\<close> block raises, the result is
  the default record (health: chlorophyll 75, water stress 25, nutrient deficiency 15,
  disease risk 12, overall 78, status healthy; soil: pH 6.8, organic matter 4.2,
  moisture 67, N 75, P 68, K 72; pest: the empty list).
\<close>

theorem models_fail_closed:
  "(\<forall>e. analyze_try data1 indices g1 = Inl e \<longrightarrow>
      fst (analyze data1 indices g1) =
        \<lparr>chlorophyll_content = 75, water_stress = 25, nutrient_deficiency = 15,
         disease_risk = 12, overall_score = 78, health_status = ''healthy'',
         recommendations = [''Monitor field conditions'', ''Continue current management practices'']\<rparr>)
   \<and> (\<forall>e. soil_analyze_try data2 g2 = Inl e \<longrightarrow>
      fst (soil_analyze data2 g2) =
        \<lparr>ph_level = 6.8, organic_matter = 4.2, moisture_content = 67, nitrogen_level = 75,
         phosphorus_level = 68, potassium_level = 72,
         soil_recommendations = [''Monitor soil conditions regularly'']\<rparr>)
   \<and> (\<forall>e. detect_try data3 g3 = Inl e \<longrightarrow> fst (detect data3 g3) = [])"
  by (simp add: analyze_def soil_analyze_def detect_def default_health_result_def
      default_soil_result_def)

text \<open>
  The three defaults are reached: a one-pixel cube on the 120-band grid for the health
  model, a cube without bands for the soil model, a one-dimensional array for the pest
  detector.
\<close>

theorem models_fail_closed_witness:
  "fst (analyze \<lparr>shape = [1, 1, 120], elems = replicate 120 (1/2)\<rparr> [] (\<lambda>i. 0)) =
        \<lparr>chlorophyll_content = 75, water_stress = 25, nutrient_deficiency = 15,
         disease_risk = 12, overall_score = 78, health_status = ''healthy'',
         recommendations = [''Monitor field conditions'', ''Continue current management practices'']\<rparr>
   \<and> fst (soil_analyze \<lparr>shape = [1, 1, 0], elems = []\<rparr> (\<lambda>i. 0)) =
        \<lparr>ph_level = 6.8, organic_matter = 4.2, moisture_content = 67, nitrogen_level = 75,
         phosphorus_level = 68, potassium_level = 72,
         soil_recommendations = [''Monitor soil conditions regularly'']\<rparr>
   \<and> fst (detect \<lparr>shape = [3], elems = [1, 2, 3]\<rparr> (\<lambda>i. 0)) = []"
proof -
  let ?cube = "\<lparr>shape = [1, 1, 120], elems = replicate 120 (1/2)\<rparr>"
  let ?flat = "\<lparr>shape = [1, 1, 0], elems = []\<rparr>"
  let ?line = "\<lparr>shape = [3], elems = [1, 2, 3]\<rparr>"
  let ?g = "\<lambda>i::nat. 0::real"
  obtain e1 where "extract_health_features ?cube [] = Inl e1"
    using extract_health_features_raises [of ?cube 1 1 120 "[]"] by auto
  then have h1: "analyze_try ?cube [] ?g = Inl e1"
    by (rule analyze_try_raises)
  have h2: "soil_analyze_try ?flat ?g = Inl ValueError"
    by (simp add: soil_analyze_try_def extract_soil_features_def np_mean_axis01_def)
  have h3: "detect_try ?line ?g = Inl ValueError"
    by (simp add: detect_try_def unpack_height_width_def)
  show ?thesis
    using models_fail_closed [of ?cube "[]" ?g ?flat ?g ?line ?g] h1 h2 h3 by blast
qed

subsection \<open>Band ranges of the spectral-curve features\<close>

text \<open>
  On every cube of at most 150 bands, the 120-band grid included, the health analysis
  returns the default record and leaves the generator untouched.
\<close>

lemma analyze_default_up_to_150_bands:
  assumes "shape data = [h, w, b]" and "b \<le> 150"
  shows "analyze data indices g = (default_health_result, g)"
proof -
  obtain e where "extract_health_features data indices = Inl e"
    using extract_health_features_raises [OF assms] by blast
  then show ?thesis by (simp add: analyze_def analyze_try_def)
qed

text \<open>
  C5. For a mean spectrum with fewer bands than the 120 of the 400-1000nm / 5nm grid,
  the red-edge slope and the four regional peak and trough features would have to be
  computed over band ranges re-derived from the band count, without indexing out of
  bounds or raising. The code takes the regions at the fixed indices 50, 100 and 150:
  on a one-pixel cube of 100 bands \<^verbatim>\<open>np.min(avg_spectrum[100:150])\<close> is applied to an
  empty slice and raises ValueError, so that \<^verbatim>\<open>analyze\<close> answers with its default
  record.
\<close>

theorem health_features_raise_on_100_bands:
  "extract_health_features \<lparr>shape = [1, 1, 100], elems = replicate 100 (1/2)\<rparr> [] = Inl ValueError
   \<and> fst (analyze \<lparr>shape = [1, 1, 100], elems = replicate 100 (1/2)\<rparr> [] (\<lambda>i. 0))
       = default_health_result"
proof -
  let ?cube = "\<lparr>shape = [1, 1, 100], elems = replicate 100 (1/2)\<rparr>"
  have "extract_health_features ?cube [] = Inl ValueError"
    by (rule extract_health_features_ValueError [of ?cube 1 1 100 "[]" "[]"]) simp_all
  then show ?thesis
    by (simp add: analyze_def analyze_try_def)
qed

subsection \<open>Bounds of the soil estimates\<close>

lemma clamp_bounds: "lo \<le> hi \<Longrightarrow> lo \<le> max lo (min hi (x::real)) \<and> max lo (min hi x) \<le> hi"
  by auto

lemma rng_tail_apply [simp]: "rng_tail g i = g (Suc i)"
  by (simp add: rng_tail_def)

lemma estimate_ph_level_eq:
  "estimate_ph_level fs g = (max 4 (min 8.5 (6.5 + 0.5 * g 0)), rng_tail g)"
  by (simp add: estimate_ph_level_def random_normal_def)

lemma estimate_organic_matter_eq:
  "estimate_organic_matter fs g = (max 1 (min 8 (3.5 + 1 * g 0)), rng_tail g)"
  by (simp add: estimate_organic_matter_def random_normal_def)

lemma estimate_moisture_content_eq:
  "estimate_moisture_content fs g = (max 0 (min 100 (45 + 15 * g 0)), rng_tail g)"
  by (simp add: estimate_moisture_content_def random_normal_def)

lemma estimate_nitrogen_level_eq:
  "estimate_nitrogen_level fs g = (max 0 (min 100 (70 + 15 * g 0)), rng_tail g)"
  by (simp add: estimate_nitrogen_level_def random_normal_def)

lemma estimate_phosphorus_level_eq:
  "estimate_phosphorus_level fs g = (max 0 (min 100 (65 + 12 * g 0)), rng_tail g)"
  by (simp add: estimate_phosphorus_level_def random_normal_def)

lemma estimate_potassium_level_eq:
  "estimate_potassium_level fs g = (max 0 (min 100 (68 + 10 * g 0)), rng_tail g)"
  by (simp add: estimate_potassium_level_def random_normal_def)

lemmas estimate_eqs = estimate_ph_level_eq estimate_organic_matter_eq estimate_moisture_content_eq
  estimate_nitrogen_level_eq estimate_phosphorus_level_eq estimate_potassium_level_eq

text \<open>
  When the feature extraction succeeds, the soil record is made of six clamped draws, read
  from the first six cells of the generator; the features themselves are not used.
\<close>

lemma soil_analyze_success:
  assumes "extract_soil_features data = Inr fs"
  shows "soil_analyze data g =
     (\<lparr>ph_level = max 4 (min 8.5 (6.5 + 0.5 * g 0)),
       organic_matter = max 1 (min 8 (3.5 + 1 * g 1)),
       moisture_content = max 0 (min 100 (45 + 15 * g 2)),
       nitrogen_level = max 0 (min 100 (70 + 15 * g 3)),
       phosphorus_level = max 0 (min 100 (65 + 12 * g 4)),
       potassium_level = max 0 (min 100 (68 + 10 * g 5)),
       soil_recommendations =
         generate_soil_recommendations
           (max 4 (min 8.5 (6.5 + 0.5 * g 0))) (max 1 (min 8 (3.5 + 1 * g 1)))
           (max 0 (min 100 (45 + 15 * g 2))) (max 0 (min 100 (70 + 15 * g 3)))
           (max 0 (min 100 (65 + 12 * g 4))) (max 0 (min 100 (68 + 10 * g 5)))\<rparr>,
      rng_tail (rng_tail (rng_tail (rng_tail (rng_tail (rng_tail g))))))"
proof -
  have n: "Suc 0 = 1" "Suc 1 = 2" "Suc 2 = 3" "Suc 3 = 4" "Suc 4 = 5" by simp_all
  show ?thesis
    unfolding soil_analyze_def soil_analyze_try_def assms py_bind_Inr estimate_eqs Let_def
      prod.case rng_tail_apply sum.case n ..
qed

text \<open>
  C6. For every input the record returned by \<^verbatim>\<open>SoilAnalyzer.analyze\<close> has its pH in
  [4.0, 8.5], its organic matter in [1.0, 8.0], and its moisture content, nitrogen,
  phosphorus and potassium levels in [0, 100].
\<close>

theorem soil_result_bounds:
  "4 \<le> ph_level (fst (soil_analyze data g)) \<and> ph_level (fst (soil_analyze data g)) \<le> 8.5
   \<and> 1 \<le> organic_matter (fst (soil_analyze data g)) \<and> organic_matter (fst (soil_analyze data g)) \<le> 8
   \<and> 0 \<le> moisture_content (fst (soil_analyze data g)) \<and> moisture_content (fst (soil_analyze data g)) \<le> 100
   \<and> 0 \<le> nitrogen_level (fst (soil_analyze data g)) \<and> nitrogen_level (fst (soil_analyze data g)) \<le> 100
   \<and> 0 \<le> phosphorus_level (fst (soil_analyze data g)) \<and> phosphorus_level (fst (soil_analyze data g)) \<le> 100
   \<and> 0 \<le> potassium_level (fst (soil_analyze data g)) \<and> potassium_level (fst (soil_analyze data g)) \<le> 100"
proof (cases "extract_soil_features data")
  case (Inl e)
  then show ?thesis
    by (simp add: soil_analyze_def soil_analyze_try_def default_soil_result_def)
next
  case (Inr fs)
  have c1: "4 \<le> max 4 (min 8.5 x) \<and> max 4 (min 8.5 x) \<le> 8.5" for x :: real
    by (rule clamp_bounds) simp
  have c2: "1 \<le> max 1 (min 8 x) \<and> max 1 (min 8 x) \<le> 8" for x :: real
    by (rule clamp_bounds) simp
  have c3: "0 \<le> max 0 (min 100 x) \<and> max 0 (min 100 x) \<le> 100" for x :: real
    by (rule clamp_bounds) simp
  show ?thesis
    unfolding soil_analyze_success [OF Inr] fst_conv soil_result.select_convs
    using c1 c2 c3 by blast
qed

subsection \<open>An empty feature vector\<close>

lemma health_no_trigger:
  "60 \<le> c \<Longrightarrow> w \<le> 40 \<Longrightarrow> n \<le> 30 \<Longrightarrow> d \<le> 25 \<Longrightarrow> 70 \<le> ov \<Longrightarrow>
   generate_health_recommendations c w n d ov = [''Continue current management practices'']"
  by (simp add: generate_health_recommendations_def Let_def)

lemma overall_of_fallbacks: "calculate_overall_health_score 75 20 15 12 = 80.2"
  by (simp add: calculate_overall_health_score_def Let_def)

lemma analyze_empty_features:
  assumes "extract_health_features data indices = Inr []"
  shows "analyze data indices g =
     (\<lparr>chlorophyll_content = 75, water_stress = 20, nutrient_deficiency = 15,
       disease_risk = 12, overall_score = 80.2, health_status = ''healthy'',
       recommendations = [''Continue current management practices'']\<rparr>, g)"
proof -
  have st: "get_health_status (401 / 5) = ''healthy''"
    by (simp add: get_health_status_def)
  have rc: "generate_health_recommendations 75 20 15 12 (401 / 5)
      = [''Continue current management practices'']"
    by (rule health_no_trigger) simp_all
  show ?thesis
    by (simp add: analyze_def analyze_try_def assms analyze_chlorophyll_content_def
      analyze_water_stress_def analyze_nutrient_deficiency_def analyze_disease_risk_def
      overall_of_fallbacks st rc Let_def)
qed

text \<open>A two-dimensional array with an empty index map gives the empty feature vector.\<close>

lemma extract_2d_empty:
  "extract_health_features \<lparr>shape = [2, 2], elems = [1, 2, 3, 4]\<rparr> [] = Inr []"
  by (simp add: extract_health_features_def)

text \<open>
  C7 as stated: given a feature vector of length 0, the health and the soil model return
  their documented default records. It fails: on the empty feature vector the health
  model returns water stress 20 and overall score 80.2, not the default record (water
  stress 25, overall 78), and the soil estimate of pH is the clamped draw, 6.5 on a
  zero sample, not the default 6.8.
\<close>

theorem empty_features_not_default_record:
  "extract_health_features \<lparr>shape = [2, 2], elems = [1, 2, 3, 4]\<rparr> [] = Inr []
   \<and> fst (analyze \<lparr>shape = [2, 2], elems = [1, 2, 3, 4]\<rparr> [] (\<lambda>i. 0)) \<noteq> default_health_result
   \<and> water_stress (fst (analyze \<lparr>shape = [2, 2], elems = [1, 2, 3, 4]\<rparr> [] (\<lambda>i. 0))) = 20
   \<and> overall_score (fst (analyze \<lparr>shape = [2, 2], elems = [1, 2, 3, 4]\<rparr> [] (\<lambda>i. 0))) = 80.2
   \<and> fst (estimate_ph_level [] (\<lambda>i. 0)) = 6.5
   \<and> fst (estimate_ph_level [] (\<lambda>i. 0)) \<noteq> ph_level default_soil_result"
  by (simp add: extract_2d_empty analyze_empty_features default_health_result_def
      estimate_ph_level_eq default_soil_result_def)

text \<open>
  C7 as amended: given a feature vector of length 0, no scoring model raises. The health
  model returns the fallback of each metric (chlorophyll 75, water stress 20, nutrient
  deficiency 15, disease risk 12), the overall score 80.2 computed from them, the status
  healthy and the single recommendation to continue current management practices, and
  draws nothing from the generator. The soil estimators do not read the feature vector:
  on the empty one they return the same clamped draws as on any other.
\<close>

theorem empty_features_fallbacks:
  "(extract_health_features data indices = Inr [] \<longrightarrow>
      analyze data indices g =
        (\<lparr>chlorophyll_content = 75, water_stress = 20, nutrient_deficiency = 15,
          disease_risk = 12, overall_score = 80.2, health_status = ''healthy'',
          recommendations = [''Continue current management practices'']\<rparr>, g))
   \<and> estimate_ph_level [] g2 = estimate_ph_level fs g2
   \<and> estimate_organic_matter [] g2 = estimate_organic_matter fs g2
   \<and> estimate_moisture_content [] g2 = estimate_moisture_content fs g2
   \<and> estimate_nitrogen_level [] g2 = estimate_nitrogen_level fs g2
   \<and> estimate_phosphorus_level [] g2 = estimate_phosphorus_level fs g2
   \<and> estimate_potassium_level [] g2 = estimate_potassium_level fs g2"
  using analyze_empty_features [of data indices g]
  by (simp add: estimate_eqs)

theorem empty_features_fallbacks_witness:
  "analyze \<lparr>shape = [2, 2], elems = [1, 2, 3, 4]\<rparr> [] (\<lambda>i. 1) =
        (\<lparr>chlorophyll_content = 75, water_stress = 20, nutrient_deficiency = 15,
          disease_risk = 12, overall_score = 80.2, health_status = ''healthy'',
          recommendations = [''Continue current management practices'']\<rparr>, (\<lambda>i. 1))"
  using empty_features_fallbacks [of "\<lparr>shape = [2, 2], elems = [1, 2, 3, 4]\<rparr>" "[]" "\<lambda>i. 1"]
    extract_2d_empty by blast

subsection \<open>Recommendation lists\<close>

lemma health_recommendations_nonempty:
  "generate_health_recommendations c w n d ov \<noteq> []"
  by (simp add: generate_health_recommendations_def Let_def)

lemma health_recommendations_overall_message:
  "last (generate_health_recommendations c w n d ov) =
     (if ov < 50 then ''Immediate attention required - conduct field inspection''
      else if ov < 70 then ''Monitor closely and consider management interventions''
      else ''Continue current management practices'')"
  by (simp add: generate_health_recommendations_def Let_def)

lemma soil_recommendations_nonempty:
  "generate_soil_recommendations ph om m n p k \<noteq> []"
  by (simp add: generate_soil_recommendations_def Let_def)

lemma analyze_recommendations_nonempty: "recommendations (fst (analyze data indices g)) \<noteq> []"
proof (cases "extract_health_features data indices")
  case (Inl e)
  then show ?thesis
    by (simp add: analyze_def analyze_try_def default_health_result_def)
next
  case (Inr fs)
  then show ?thesis
    by (simp add: analyze_def analyze_try_def Let_def split_def health_recommendations_nonempty)
qed

lemma soil_analyze_recommendations_nonempty:
  "soil_recommendations (fst (soil_analyze data g)) \<noteq> []"
proof (cases "extract_soil_features data")
  case (Inl e)
  then show ?thesis
    by (simp add: soil_analyze_def soil_analyze_try_def default_soil_result_def)
next
  case (Inr fs)
  show ?thesis
    unfolding soil_analyze_success [OF Inr] fst_conv soil_result.select_convs
    by (rule soil_recommendations_nonempty)
qed

lemma soil_catch_all:
  "6 \<le> ph \<Longrightarrow> ph \<le> 7.5 \<Longrightarrow> 3 \<le> om \<Longrightarrow> 30 \<le> m \<Longrightarrow> m \<le> 80 \<Longrightarrow>
   50 \<le> n \<Longrightarrow> 40 \<le> p \<Longrightarrow> 45 \<le> k \<Longrightarrow>
   generate_soil_recommendations ph om m n p k = [''Soil conditions are within optimal ranges'']"
  by (simp add: generate_soil_recommendations_def Let_def)

lemma extract_soil_2d:
  "extract_soil_features \<lparr>shape = [2, 2], elems = [1, 2, 3, 4]\<rparr> = Inr [0.5, 0.1, 0.8, 0.1, 50]"
  by (simp add: extract_soil_features_def)

text \<open>
  C8. For every input the recommendation lists returned by
  \<^verbatim>\<open>CropHealthAnalyzer.analyze\<close> and by \<^verbatim>\<open>SoilAnalyzer.analyze\<close> are non-empty. In the soil
  list, when no threshold rule fires (pH in [6, 7.5], organic matter at least 3, moisture
  in [30, 80], nitrogen, phosphorus and potassium at least 50, 40 and 45), the catch-all
  message is the list. In the health list the three-way rule on the overall score
  always fires and its message is the last element, so the case without any rule does
  not arise.
\<close>

theorem recommendation_lists_never_empty:
  "recommendations (fst (analyze data indices g)) \<noteq> []
   \<and> soil_recommendations (fst (soil_analyze data2 g2)) \<noteq> []
   \<and> (6 \<le> ph \<and> ph \<le> 7.5 \<and> 3 \<le> om \<and> 30 \<le> m \<and> m \<le> 80 \<and> 50 \<le> n \<and> 40 \<le> p \<and> 45 \<le> k \<longrightarrow>
        generate_soil_recommendations ph om m n p k = [''Soil conditions are within optimal ranges''])
   \<and> last (generate_health_recommendations c w nd d ov) =
        (if ov < 50 then ''Immediate attention required - conduct field inspection''
         else if ov < 70 then ''Monitor closely and consider management interventions''
         else ''Continue current management practices'')"
  using analyze_recommendations_nonempty soil_analyze_recommendations_nonempty
    soil_catch_all health_recommendations_overall_message by blast

text \<open>With a generator that returns zero noise, the soil estimates trigger no rule.\<close>

theorem recommendation_lists_never_empty_witness:
  "soil_recommendations (fst (soil_analyze \<lparr>shape = [2, 2], elems = [1, 2, 3, 4]\<rparr> (\<lambda>i. 0)))
     = [''Soil conditions are within optimal ranges'']"
proof -
  have soil: "generate_soil_recommendations 6.5 3.5 45 70 65 68
      = [''Soil conditions are within optimal ranges'']"
    using recommendation_lists_never_empty [of _ _ _ _ _ "6.5" "3.5" 45 70 65 68] by simp
  show ?thesis
    using soil by (simp add: soil_analyze_success [OF extract_soil_2d])
qed

subsection \<open>Dependence on the random generator\<close>

lemma tapes_agree_tail: "tapes_agree (Suc n) g1 g2 \<Longrightarrow> tapes_agree n (rng_tail g1) (rng_tail g2)"
  by (simp add: tapes_agree_def)

lemma tapes_agree_weaken: "tapes_agree (Suc n) g1 g2 \<Longrightarrow> tapes_agree n g1 g2"
  by (simp add: tapes_agree_def)

lemma tapes_agree_head: "tapes_agree (Suc n) g1 g2 \<Longrightarrow> g1 0 = g2 0"
  by (simp add: tapes_agree_def)

lemma chlorophyll_local:
  assumes "tapes_agree (Suc n) g1 g2"
  shows "fst (analyze_chlorophyll_content fs g1) = fst (analyze_chlorophyll_content fs g2)
    \<and> tapes_agree n (snd (analyze_chlorophyll_content fs g1)) (snd (analyze_chlorophyll_content fs g2))"
  using tapes_agree_tail [OF assms] tapes_agree_weaken [OF assms] tapes_agree_head [OF assms]
  by (simp add: analyze_chlorophyll_content_def random_normal_def Let_def)

lemma water_stress_local:
  assumes "tapes_agree (Suc n) g1 g2"
  shows "fst (analyze_water_stress fs g1) = fst (analyze_water_stress fs g2)
    \<and> tapes_agree n (snd (analyze_water_stress fs g1)) (snd (analyze_water_stress fs g2))"
  using tapes_agree_tail [OF assms] tapes_agree_weaken [OF assms] tapes_agree_head [OF assms]
  by (simp add: analyze_water_stress_def random_uniform_def Let_def)

lemma nutrient_deficiency_local:
  assumes "tapes_agree (Suc n) g1 g2"
  shows "fst (analyze_nutrient_deficiency fs g1) = fst (analyze_nutrient_deficiency fs g2)
    \<and> tapes_agree n (snd (analyze_nutrient_deficiency fs g1)) (snd (analyze_nutrient_deficiency fs g2))"
  using tapes_agree_tail [OF assms] tapes_agree_weaken [OF assms] tapes_agree_head [OF assms]
  by (simp add: analyze_nutrient_deficiency_def random_uniform_def Let_def)

lemma disease_risk_local:
  assumes "tapes_agree (Suc n) g1 g2"
  shows "fst (analyze_disease_risk fs g1) = fst (analyze_disease_risk fs g2)
    \<and> tapes_agree n (snd (analyze_disease_risk fs g1)) (snd (analyze_disease_risk fs g2))"
  using tapes_agree_tail [OF assms] tapes_agree_weaken [OF assms] tapes_agree_head [OF assms]
  by (simp add: analyze_disease_risk_def random_uniform_def Let_def)

lemma analyze_local:
  assumes "tapes_agree 4 g1 g2"
  shows "fst (analyze data indices g1) = fst (analyze data indices g2)"
proof (cases "extract_health_features data indices")
  case (Inl e)
  then show ?thesis by (simp add: analyze_def analyze_try_def)
next
  case (Inr fs)
  have a4: "tapes_agree (Suc 3) g1 g2" using assms by (simp add: eval_nat_numeral)
  note c = chlorophyll_local [OF a4, of fs]
  have a3: "tapes_agree (Suc 2) (snd (analyze_chlorophyll_content fs g1)) (snd (analyze_chlorophyll_content fs g2))"
    using c by (simp add: eval_nat_numeral)
  note w = water_stress_local [OF a3, of fs]
  have a2: "tapes_agree (Suc 1) (snd (analyze_water_stress fs (snd (analyze_chlorophyll_content fs g1))))
      (snd (analyze_water_stress fs (snd (analyze_chlorophyll_content fs g2))))"
    using w by (simp add: eval_nat_numeral)
  note n = nutrient_deficiency_local [OF a2, of fs]
  have a1: "tapes_agree (Suc 0)
      (snd (analyze_nutrient_deficiency fs (snd (analyze_water_stress fs (snd (analyze_chlorophyll_content fs g1))))))
      (snd (analyze_nutrient_deficiency fs (snd (analyze_water_stress fs (snd (analyze_chlorophyll_content fs g2))))))"
    using n by simp
  note d = disease_risk_local [OF a1, of fs]
  show ?thesis
    using c w n d
    by (simp add: analyze_def analyze_try_def Inr Let_def split_def)
qed

lemma soil_analyze_local:
  assumes "tapes_agree 6 g1 g2"
  shows "fst (soil_analyze data g1) = fst (soil_analyze data g2)"
proof (cases "extract_soil_features data")
  case (Inl e)
  then show ?thesis by (simp add: soil_analyze_def soil_analyze_try_def)
next
  case (Inr fs)
  have "g1 0 = g2 0" "g1 1 = g2 1" "g1 2 = g2 2" "g1 3 = g2 3" "g1 4 = g2 4" "g1 5 = g2 5"
    using assms by (simp_all add: tapes_agree_def)
  then show ?thesis
    unfolding soil_analyze_success [OF Inr] fst_conv by simp
qed


lemma index_statistics_constant:
  "index_statistics \<lparr>shape = [2, 2], elems = [1 / 2, 1 / 2, 1 / 2, 1 / 2]\<rparr>
     = Inr [1 / 2, 0, 1 / 2, 1 / 2, 1 / 2, 1 / 2]"
  by (simp add: index_statistics_def np_mean_def np_std_def np_percentile_def Let_def)

lemma extract_2d_ndvi:
  "extract_health_features \<lparr>shape = [2, 2], elems = [1, 2, 3, 4]\<rparr>
     [(''ndvi'', IndexArray \<lparr>shape = [2, 2], elems = [1 / 2, 1 / 2, 1 / 2, 1 / 2]\<rparr>)]
   = Inr [1 / 2, 0, 1 / 2, 1 / 2, 1 / 2, 1 / 2]"
  by (simp add: extract_health_features_def index_statistics_constant)

lemma chlorophyll_ndvi_half:
  "analyze_chlorophyll_content [1 / 2, 0, 1 / 2, 1 / 2, 1 / 2, 1 / 2] g
     = (max 0 (min 100 (80 + 5 * g 0)), rng_tail g)"
  by (simp add: analyze_chlorophyll_content_def random_normal_def)

lemma analyze_2d_ndvi:
  "chlorophyll_content (fst (analyze \<lparr>shape = [2, 2], elems = [1, 2, 3, 4]\<rparr>
     [(''ndvi'', IndexArray \<lparr>shape = [2, 2], elems = [1 / 2, 1 / 2, 1 / 2, 1 / 2]\<rparr>)] g))
     = max 0 (min 100 (80 + 5 * g 0))
   \<and> snd (analyze \<lparr>shape = [2, 2], elems = [1, 2, 3, 4]\<rparr>
     [(''ndvi'', IndexArray \<lparr>shape = [2, 2], elems = [1 / 2, 1 / 2, 1 / 2, 1 / 2]\<rparr>)] g)
     = rng_tail (rng_tail (rng_tail g))"
  unfolding analyze_def analyze_try_def extract_2d_ndvi py_bind_Inr chlorophyll_ndvi_half
  by (simp add: analyze_water_stress_def analyze_nutrient_deficiency_def
     analyze_disease_risk_def random_uniform_def Let_def split_def)

text \<open>
  C3 as stated: two calls of \<^verbatim>\<open>CropHealthAnalyzer.analyze\<close> (and of
  \<^verbatim>\<open>SoilAnalyzer.analyze\<close>) on identical data and identical indices return identical
  scores, status and recommendations. It fails: the second call reads the generator
  where the first call left it. On a 2x2 array with a constant NDVI map of 0.5 and a
  generator whose first variate is 0 and whose later ones are 0.5, the first call gives
  chlorophyll 80 and pH 6.5, the second chlorophyll 82.5 and pH 6.75.
\<close>

theorem scoring_depends_on_generator:
  "fst (analyze \<lparr>shape = [2, 2], elems = [1, 2, 3, 4]\<rparr>
          [(''ndvi'', IndexArray \<lparr>shape = [2, 2], elems = [1 / 2, 1 / 2, 1 / 2, 1 / 2]\<rparr>)]
          (\<lambda>i. if i = 0 then 0 else 1 / 2))
     \<noteq> fst (analyze \<lparr>shape = [2, 2], elems = [1, 2, 3, 4]\<rparr>
          [(''ndvi'', IndexArray \<lparr>shape = [2, 2], elems = [1 / 2, 1 / 2, 1 / 2, 1 / 2]\<rparr>)]
          (snd (analyze \<lparr>shape = [2, 2], elems = [1, 2, 3, 4]\<rparr>
             [(''ndvi'', IndexArray \<lparr>shape = [2, 2], elems = [1 / 2, 1 / 2, 1 / 2, 1 / 2]\<rparr>)]
             (\<lambda>i. if i = 0 then 0 else 1 / 2))))
   \<and> fst (soil_analyze \<lparr>shape = [2, 2], elems = [1, 2, 3, 4]\<rparr> (\<lambda>i. if i = 0 then 0 else 1 / 2))
     \<noteq> fst (soil_analyze \<lparr>shape = [2, 2], elems = [1, 2, 3, 4]\<rparr>
          (snd (soil_analyze \<lparr>shape = [2, 2], elems = [1, 2, 3, 4]\<rparr>
             (\<lambda>i. if i = 0 then 0 else 1 / 2))))"
proof -
  let ?d = "\<lparr>shape = [2, 2], elems = [1, 2, 3, 4]\<rparr>"
  let ?idx = "[(''ndvi'', IndexArray \<lparr>shape = [2, 2], elems = [1 / 2, 1 / 2, 1 / 2, 1 / 2]\<rparr>)]"
  let ?g = "\<lambda>i::nat. if i = 0 then 0 else (1 / 2 :: real)"
  have c1: "chlorophyll_content (fst (analyze ?d ?idx ?g)) = 80"
    by (simp add: analyze_2d_ndvi)
  have c2: "chlorophyll_content (fst (analyze ?d ?idx (snd (analyze ?d ?idx ?g)))) = 82.5"
    by (simp add: analyze_2d_ndvi)
  have p1: "ph_level (fst (soil_analyze ?d ?g)) = 6.5"
    by (simp add: soil_analyze_success [OF extract_soil_2d])
  have p2: "ph_level (fst (soil_analyze ?d (snd (soil_analyze ?d ?g)))) = 6.75"
    by (simp add: soil_analyze_success [OF extract_soil_2d])
  have "fst (analyze ?d ?idx ?g) \<noteq> fst (analyze ?d ?idx (snd (analyze ?d ?idx ?g)))"
    using c1 c2 by auto
  moreover have "fst (soil_analyze ?d ?g) \<noteq> fst (soil_analyze ?d (snd (soil_analyze ?d ?g)))"
    using p1 p2 by auto
  ultimately show ?thesis by blast
qed

text \<open>
  C3 as amended: each scoring model is a function of its features and of the variates it
  draws. Two calls of \<^verbatim>\<open>CropHealthAnalyzer.analyze\<close> on identical data and indices
  return identical scores, status and recommendations whenever the generator hands both
  the same next four variates, and two calls of \<^verbatim>\<open>SoilAnalyzer.analyze\<close> on identical
  data whenever it hands both the same next six.
\<close>

theorem scoring_determined_by_consumed_draws:
  "((\<forall>i<4. g1 i = g2 i) \<longrightarrow> fst (analyze data indices g1) = fst (analyze data indices g2))
   \<and> ((\<forall>i<6. g3 i = g4 i) \<longrightarrow> fst (soil_analyze data2 g3) = fst (soil_analyze data2 g4))"
  using analyze_local [of g1 g2 data indices] soil_analyze_local [of g3 g4 data2]
  by (simp add: tapes_agree_def)

theorem scoring_determined_by_consumed_draws_witness:
  "fst (analyze \<lparr>shape = [2, 2], elems = [1, 2, 3, 4]\<rparr>
          [(''ndvi'', IndexArray \<lparr>shape = [2, 2], elems = [1 / 2, 1 / 2, 1 / 2, 1 / 2]\<rparr>)] (\<lambda>i. if i < 6 then 1 / 2 else 0))
     = fst (analyze \<lparr>shape = [2, 2], elems = [1, 2, 3, 4]\<rparr>
          [(''ndvi'', IndexArray \<lparr>shape = [2, 2], elems = [1 / 2, 1 / 2, 1 / 2, 1 / 2]\<rparr>)] (\<lambda>i. if i < 6 then 1 / 2 else 1))
   \<and> fst (soil_analyze \<lparr>shape = [2, 2], elems = [1, 2, 3, 4]\<rparr> (\<lambda>i. if i < 6 then 1 / 2 else 0))
     = fst (soil_analyze \<lparr>shape = [2, 2], elems = [1, 2, 3, 4]\<rparr> (\<lambda>i. if i < 6 then 1 / 2 else 1))"
  using scoring_determined_by_consumed_draws
    [of "\<lambda>i. if i < 6 then 1 / 2 else 0" "\<lambda>i. if i < 6 then 1 / 2 else 1"
        "\<lparr>shape = [2, 2], elems = [1, 2, 3, 4]\<rparr>"
        "[(''ndvi'', IndexArray \<lparr>shape = [2, 2], elems = [1 / 2, 1 / 2, 1 / 2, 1 / 2]\<rparr>)]"
        "\<lambda>i. if i < 6 then 1 / 2 else 0" "\<lambda>i. if i < 6 then 1 / 2 else 1"
        "\<lparr>shape = [2, 2], elems = [1, 2, 3, 4]\<rparr>"]
  by simp

subsection \<open>The sort of the detections\<close>

lemma py_mapM_total:
  "(\<And>x. x \<in> set xs \<Longrightarrow> f x = Inr (h x)) \<Longrightarrow> py_mapM f xs = Inr (map h xs)"
  by (induction xs) simp_all

lemma insort_key_decorate:
  "insort_key fst (h a, a) (map (\<lambda>x. (h x, x)) zs) = map (\<lambda>x. (h x, x)) (insort_key h a zs)"
  by (induction zs) simp_all

lemma sort_key_decorate:
  "sort_key fst (map (\<lambda>x. (h x, x)) ys) = map (\<lambda>x. (h x, x)) (sort_key h ys)"
  by (induction ys) (simp_all add: insort_key_decorate)

lemma zip_map_self: "zip (map h xs) xs = map (\<lambda>x. (h x, x)) xs"
  by (induction xs) simp_all

lemma py_sort_reverse_total:
  assumes "\<And>x. x \<in> set xs \<Longrightarrow> f x = Inr (h x)"
  shows "py_sort_reverse f xs = Inr (rev (sort_key h (rev xs)))"
proof -
  have keys: "py_mapM f xs = Inr (map h xs)" using assms by (rule py_mapM_total)
  have "rev (zip (map h xs) xs) = map (\<lambda>x. (h x, x)) (rev xs)"
    by (simp only: zip_map_self rev_map)
  then have "sort_key fst (rev (zip (map h xs) xs)) = map (\<lambda>x. (h x, x)) (sort_key h (rev xs))"
    by (simp only: sort_key_decorate)
  then have "map snd (rev (sort_key fst (rev (zip (map h xs) xs)))) = rev (sort_key h (rev xs))"
    by (simp add: rev_map [symmetric] comp_def)
  then show ?thesis
    by (simp add: py_sort_reverse_def keys)
qed

lemma sorted_desc_rev_sort_key:
  "sorted_wrt (\<lambda>a b. h b \<le> h a) (rev (sort_key h ys))" for h :: "'a \<Rightarrow> int"
proof -
  have "sorted (map h (sort_key h ys))" by (rule sorted_sort_key)
  then have "sorted_wrt (\<lambda>a b. h a \<le> h b) (sort_key h ys)"
    by (simp add: sorted_map)
  then show ?thesis by (simp add: sorted_wrt_rev)
qed

lemma stable_rev_sort_key:
  "filter (\<lambda>y. h y = k) (rev (sort_key h (rev xs))) = filter (\<lambda>y. h y = k) xs"
proof -
  have "filter (\<lambda>y. h y = k) (rev (sort_key h (rev xs))) = rev (filter (\<lambda>y. h y = k) (sort_key h (rev xs)))"
    by (simp add: rev_filter)
  also have "\<dots> = rev (filter (\<lambda>y. h y = k) (rev xs))"
    by (simp add: sort_key_stable)
  also have "\<dots> = filter (\<lambda>y. h y = k) xs"
    by (simp add: rev_filter)
  finally show ?thesis .
qed


lemma confidence_range_keys:
  "py_getitem confidence_ranges s = Inr cr \<Longrightarrow> s \<in> set severities"
  by (auto simp: py_getitem_def confidence_ranges_def severities_def split: if_splits)

lemma severity_order_keys:
  "s \<in> set severities \<Longrightarrow> py_getitem severity_order s = Inr (int (severity_tier s))"
  by (auto simp: py_getitem_def severity_order_def severities_def severity_tier_def)

lemma create_pest_detection_severity:
  assumes "create_pest_detection t h w g = Inr (d, g')"
  shows "severity d \<in> set severities"
proof -
  let ?sev = "fst (random_choice_p severities [0.4, 0.4, 0.2] g)"
  obtain cr where cr: "py_getitem confidence_ranges ?sev = Inr cr"
    using assms by (cases "py_getitem confidence_ranges ?sev")
      (simp_all add: create_pest_detection_def split_def Let_def)
  have "severity d = ?sev"
    using assms cr by (auto simp: create_pest_detection_def split_def Let_def)
  then show ?thesis using confidence_range_keys [OF cr] by simp
qed

lemma detect_loop_invariant:
  assumes "detect_loop k h w ds g = Inr (ds', g')" and "\<And>d. d \<in> set ds \<Longrightarrow> P d"
    and step: "\<And>t g1 d g2. create_pest_detection t h w g1 = Inr (d, g2) \<Longrightarrow> P d"
  shows "\<And>d. d \<in> set ds' \<Longrightarrow> P d"
  using assms(1,2)
proof (induction k arbitrary: ds g)
  case 0
  then show ?case by simp
next
  case (Suc k)
  let ?t = "fst (random_choice (map fst pest_database) g)"
  let ?g1 = "snd (random_choice (map fst pest_database) g)"
  obtain x g2 where c: "create_pest_detection ?t h w ?g1 = Inr (x, g2)"
    using Suc.prems(2) by (cases "create_pest_detection ?t h w ?g1") (auto simp: split_def)
  have rest: "detect_loop k h w (ds @ [x]) g2 = Inr (ds', g')"
    using Suc.prems(2) c by (simp add: split_def)
  have "\<And>y. y \<in> set (ds @ [x]) \<Longrightarrow> P y"
    using Suc.prems(3) step [OF c] by auto
  from Suc.IH [OF _ rest this] Suc.prems(1) show ?case by blast
qed

lemma detect_loop_length:
  "detect_loop k h w ds g = Inr (ds', g') \<Longrightarrow> length ds' = length ds + k"
proof (induction k arbitrary: ds g)
  case 0
  then show ?case by simp
next
  case (Suc k)
  let ?t = "fst (random_choice (map fst pest_database) g)"
  let ?g1 = "snd (random_choice (map fst pest_database) g)"
  obtain x g2 where c: "create_pest_detection ?t h w ?g1 = Inr (x, g2)"
    using Suc.prems by (cases "create_pest_detection ?t h w ?g1") (auto simp: split_def)
  have rest: "detect_loop k h w (ds @ [x]) g2 = Inr (ds', g')"
    using Suc.prems c by (simp add: split_def)
  from Suc.IH [OF rest] show ?case by simp
qed


lemma generated_severities:
  assumes "d \<in> set (generated_detections data g)"
  shows "severity d \<in> set severities"
proof (cases "unpack_height_width data")
  case (Inl e)
  then show ?thesis using assms by (simp add: generated_detections_def)
next
  case (Inr hw)
  obtain h w where hw: "hw = (h, w)" by (cases hw)
  let ?n = "nat (fst (random_randint 0 4 g))"
  let ?g1 = "snd (random_randint 0 4 g)"
  show ?thesis
  proof (cases "detect_loop ?n h w [] ?g1")
    case (Inl e)
    then show ?thesis using assms Inr hw by (simp add: generated_detections_def)
  next
    case loop: (Inr r)
    obtain ds g2 where r: "r = (ds, g2)" by (cases r)
    have "d \<in> set ds" using assms Inr hw loop r by (simp add: generated_detections_def)
    with detect_loop_invariant [of ?n h w "[]" ?g1 ds g2 "\<lambda>d. severity d \<in> set severities"]
      loop r create_pest_detection_severity
    show ?thesis by (metis empty_iff empty_set)
  qed
qed

lemma detect_sorts_generated:
  "fst (detect data g) =
     rev (sort_key (\<lambda>d. int (severity_tier (severity d))) (rev (generated_detections data g)))"
proof (cases "unpack_height_width data")
  case (Inl e)
  then show ?thesis by (simp add: detect_def detect_try_def generated_detections_def)
next
  case (Inr hw)
  obtain h w where hw: "hw = (h, w)" by (cases hw)
  let ?n = "nat (fst (random_randint 0 4 g))"
  let ?g1 = "snd (random_randint 0 4 g)"
  show ?thesis
  proof (cases "detect_loop ?n h w [] ?g1")
    case (Inl e)
    then show ?thesis using Inr hw
      by (simp add: detect_def detect_try_def generated_detections_def split_def)
  next
    case loop: (Inr r)
    obtain ds g2 where r: "r = (ds, g2)" by (cases r)
    have gen: "generated_detections data g = ds"
      using Inr hw loop r by (simp add: generated_detections_def)
    have "\<And>x. x \<in> set ds \<Longrightarrow>
        py_getitem severity_order (severity x) = Inr (int (severity_tier (severity x)))"
      using generated_severities [of _ data g] gen severity_order_keys by blast
    then have "py_sort_reverse (\<lambda>x. py_getitem severity_order (severity x)) ds
        = Inr (rev (sort_key (\<lambda>d. int (severity_tier (severity d))) (rev ds)))"
      by (rule py_sort_reverse_total)
    then show ?thesis using Inr hw loop r gen
      by (simp add: detect_def detect_try_def split_def)
  qed
qed

lemma severity_tier_inj:
  "a \<in> set severities \<Longrightarrow> b \<in> set severities \<Longrightarrow>
   (severity_tier a = severity_tier b) = (a = b)"
  by (auto simp: severities_def severity_tier_def)

text \<open>
  C9. The list returned by \<^verbatim>\<open>PestDetector.detect\<close> is sorted in descending order of
  severity tier (High, then Medium, then Low), and the detections of one severity appear
  in the order in which the loop generated them.
\<close>

theorem detections_sorted_by_severity_stable:
  "sorted_wrt (\<lambda>a b. severity_tier (severity b) \<le> severity_tier (severity a)) (fst (detect data g))
   \<and> (\<forall>s. filter (\<lambda>d. severity d = s) (fst (detect data g))
          = filter (\<lambda>d. severity d = s) (generated_detections data g))"
proof -
  let ?h = "\<lambda>d. int (severity_tier (severity d))"
  let ?gen = "generated_detections data g"
  have res: "fst (detect data g) = rev (sort_key ?h (rev ?gen))"
    by (rule detect_sorts_generated)
  have "sorted_wrt (\<lambda>a b. ?h b \<le> ?h a) (rev (sort_key ?h (rev ?gen)))"
    by (rule sorted_desc_rev_sort_key)
  then have sorted: "sorted_wrt (\<lambda>a b. severity_tier (severity b) \<le> severity_tier (severity a))
      (fst (detect data g))"
    by (simp add: res)
  have set_eq: "set (fst (detect data g)) = set ?gen"
    by (simp add: res)
  have stable: "filter (\<lambda>d. severity d = s) (fst (detect data g))
      = filter (\<lambda>d. severity d = s) ?gen" for s
  proof (cases "s \<in> set severities")
    case True
    have eq: "(severity d = s) = (?h d = int (severity_tier s))" if "d \<in> set ?gen" for d
      using severity_tier_inj [OF generated_severities [OF that] True] by auto
    have "filter (\<lambda>d. severity d = s) (fst (detect data g))
        = filter (\<lambda>d. ?h d = int (severity_tier s)) (fst (detect data g))"
      by (rule filter_cong) (simp_all add: eq set_eq)
    also have "\<dots> = filter (\<lambda>d. ?h d = int (severity_tier s)) ?gen"
      unfolding res by (rule stable_rev_sort_key)
    also have "\<dots> = filter (\<lambda>d. severity d = s) ?gen"
      by (rule filter_cong) (simp_all add: eq)
    finally show ?thesis .
  next
    case False
    then have "\<And>d. d \<in> set ?gen \<Longrightarrow> severity d \<noteq> s"
      using generated_severities by blast
    then show ?thesis
      by (simp add: set_eq filter_empty_conv [THEN iffD2])
  qed
  from sorted stable show ?thesis by blast
qed


subsection \<open>The number of detections\<close>

lemma unit_tape_tail: "unit_tape g \<Longrightarrow> unit_tape (rng_tail g)"
  by (simp add: unit_tape_def)

lemma unit_tape_head: "unit_tape g \<Longrightarrow> 0 \<le> g 0 \<and> g 0 < 1"
  by (simp add: unit_tape_def)

lemma choice_severity:
  assumes "g 0 < 1"
  shows "fst (random_choice_p severities [0.4, 0.4, 0.2] g) =
     (if g 0 < 0.4 then ''Low'' else if g 0 < 0.8 then ''Medium'' else ''High'')"
  using assms by (simp add: random_choice_p_def severities_def)

lemma randint_0_4:
  assumes "0 \<le> g 0" and "g 0 < 1"
  shows "0 \<le> fst (random_randint 0 4 g) \<and> fst (random_randint 0 4 g) \<le> 3"
proof -
  have "0 \<le> 4 * g 0" and "4 * g 0 < 4" using assms by simp_all
  then have "0 \<le> \<lfloor>4 * g 0\<rfloor>" and "\<lfloor>4 * g 0\<rfloor> < 4"
    by (simp_all add: floor_less_iff)
  then show ?thesis by (simp add: random_randint_def)
qed

lemma confidence_range_total:
  "s \<in> set severities \<Longrightarrow>
   py_getitem confidence_ranges s = Inr (py_get confidence_ranges s (0, 0))"
  by (auto simp: py_getitem_def py_get_def confidence_ranges_def severities_def)

lemma create_pest_detection_ok:
  assumes "g 0 < 1"
  shows "\<exists>d. create_pest_detection t h w g
      = Inr (d, rng_tail (rng_tail (rng_tail (rng_tail (rng_tail g)))))"
proof -
  let ?sev = "fst (random_choice_p severities [0.4, 0.4, 0.2] g)"
  have "?sev \<in> set severities"
    using choice_severity [of g] assms by (simp add: severities_def)
  then have "py_getitem confidence_ranges ?sev = Inr (py_get confidence_ranges ?sev (0, 0))"
    by (rule confidence_range_total)
  then show ?thesis
    by (simp add: create_pest_detection_def split_def Let_def random_choice_p_def
        random_uniform_def random_choice_def)
qed

lemma detect_loop_ok:
  "unit_tape g \<Longrightarrow> \<exists>ds' g'. detect_loop k h w ds g = Inr (ds', g')"
proof (induction k arbitrary: ds g)
  case 0
  then show ?case by simp
next
  case (Suc k)
  let ?t = "fst (random_choice (map fst pest_database) g)"
  let ?g6 = "rng_tail (rng_tail (rng_tail (rng_tail (rng_tail (rng_tail g)))))"
  have g1: "snd (random_choice (map fst pest_database) g) = rng_tail g"
    by (simp add: random_choice_def)
  have u1: "unit_tape (rng_tail g)" using Suc.prems by (rule unit_tape_tail)
  then have "rng_tail g 0 < 1" using unit_tape_head by blast
  then obtain d where c: "create_pest_detection ?t h w (rng_tail g) = Inr (d, ?g6)"
    using create_pest_detection_ok by blast
  have "unit_tape ?g6"
    using Suc.prems by (simp add: unit_tape_def)
  then obtain ds' g' where "detect_loop k h w (ds @ [d]) ?g6 = Inr (ds', g')"
    using Suc.IH by blast
  then show ?case
    unfolding detect_loop.simps split_def g1 Let_def c py_bind_Inr fst_conv snd_conv by blast
qed

text \<open>
  C10. For every cube with at least two dimensions, \<^verbatim>\<open>PestDetector.detect\<close> returns
  at most three detections: with a generator of unit samples their number is the value
  of \<^verbatim>\<open>np.random.randint(0, 4)\<close>, one of 0, 1, 2 and 3.
\<close>

theorem detect_count_at_most_three:
  assumes "unit_tape g" and "2 \<le> length (shape data)"
  shows "length (fst (detect data g)) = nat (fst (random_randint 0 4 g))
    \<and> fst (random_randint 0 4 g) \<in> {0, 1, 2, 3}
    \<and> length (fst (detect data g)) \<le> 3"
proof -
  let ?n = "fst (random_randint 0 4 g)"
  have n: "0 \<le> ?n \<and> ?n \<le> 3"
    using unit_tape_head [OF assms(1)] by (intro randint_0_4) simp_all
  obtain h w where hw: "unpack_height_width data = Inr (h, w)"
    using assms(2) by (cases "shape data" rule: list.exhaust; cases "tl (shape data)")
      (auto simp: unpack_height_width_def)
  have "unit_tape (snd (random_randint 0 4 g))"
    using assms(1) by (simp add: random_randint_def unit_tape_tail)
  then obtain ds g2 where loop: "detect_loop (nat ?n) h w [] (snd (random_randint 0 4 g)) = Inr (ds, g2)"
    using detect_loop_ok by blast
  have gen: "generated_detections data g = ds"
    using hw loop by (simp add: generated_detections_def)
  have "length ds = nat ?n" using detect_loop_length [OF loop] by simp
  then have len: "length (fst (detect data g)) = nat ?n"
    by (simp add: detect_sorts_generated gen)
  from n have "?n \<in> {0, 1, 2, 3}" by auto
  with len n show ?thesis by auto
qed

text \<open>On the 512 by 512 cube, with every unit sample 0.75, three detections are returned.\<close>

theorem detect_count_at_most_three_witness:
  "length (fst (detect flat_field_cube (\<lambda>i. 3 / 4))) = 3"
proof -
  have u: "unit_tape (\<lambda>i. 3 / 4)" by (simp add: unit_tape_def)
  have n: "fst (random_randint 0 4 (\<lambda>i. 3 / 4)) = 3" by (simp add: random_randint_def)
  show ?thesis
    using detect_count_at_most_three
      [of "\<lambda>i. 3 / 4" flat_field_cube] u n
    by (simp add: flat_field_cube_def)
qed

subsection \<open>A run of the detector\<close>

lemma flat_field_cube_well_formed: "wf_ndarray flat_field_cube"
  by (simp add: wf_ndarray_def flat_field_cube_def)

lemma rng_tail_const: "rng_tail (\<lambda>i. c) = (\<lambda>i. c)"
  by (simp add: rng_tail_def)

lemma title_spider_mites:
  "py_title (py_replace (CHR ''_'') (CHR '' '') ''spider_mites'') = ''Spider Mites''"
  by code_simp

lemma create_const_three_quarters:
  "create_pest_detection ''spider_mites'' h w (\<lambda>i. 3 / 4) =
     Inr (\<lparr>det_type = ''Spider Mites'', confidence = 0.85, severity = ''Medium'',
           location_x = real w * (3 / 4), location_y = real h * (3 / 4),
           recommendation = ''Monitor for natural predators''\<rparr>, (\<lambda>i. 3 / 4))"
  by (simp add: create_pest_detection_def random_choice_p_def severities_def py_getitem_def
      confidence_ranges_def random_uniform_def rng_tail_const random_choice_def py_get_def
      pest_recommendations_def title_spider_mites)

lemma choice_const_three_quarters:
  "random_choice (map fst pest_database) (\<lambda>i. 3 / 4) = (''spider_mites'', (\<lambda>i. 3 / 4))"
  by (simp add: random_choice_def pest_database_def rng_tail_const)

lemma detect_loop_const_three_quarters:
  "detect_loop k h w ds (\<lambda>i. 3 / 4) =
     Inr (ds @ replicate k
           \<lparr>det_type = ''Spider Mites'', confidence = 0.85, severity = ''Medium'',
            location_x = real w * (3 / 4), location_y = real h * (3 / 4),
            recommendation = ''Monitor for natural predators''\<rparr>, (\<lambda>i. 3 / 4))"
proof (induction k arbitrary: ds)
  case 0
  then show ?case by simp
next
  case (Suc k)
  show ?case
    unfolding detect_loop.simps choice_const_three_quarters Let_def prod.case
      create_const_three_quarters py_bind_Inr Suc.IH
    by (simp add: replicate_append_same)
qed

lemma generated_const_three_quarters:
  "generated_detections flat_field_cube (\<lambda>i. 3 / 4)
    = replicate 3 \<lparr>det_type = ''Spider Mites'', confidence = 0.85, severity = ''Medium'',
            location_x = 384, location_y = 384,
            recommendation = ''Monitor for natural predators''\<rparr>"
  by (simp add: generated_detections_def unpack_height_width_def random_randint_def
      rng_tail_const detect_loop_const_three_quarters flat_field_cube_def)

text \<open>
  C4. Every detection would carry a normalized image location, both coordinates in
  [0, 1]. The code draws them with \<^verbatim>\<open>np.random.uniform(0, width)\<close> and
  \<^verbatim>\<open>np.random.uniform(0, height)\<close>, in pixels: on the 512 by 512 cube, with every
  unit sample equal to 0.75, the three detections lie at (384, 384).
\<close>

theorem pest_locations_are_pixel_coordinates:
  "unit_tape (\<lambda>i. 3 / 4)
   \<and> map location_x
        (fst (detect flat_field_cube (\<lambda>i. 3 / 4))) = [384, 384, 384]
   \<and> map location_y
        (fst (detect flat_field_cube (\<lambda>i. 3 / 4))) = [384, 384, 384]"
  by (simp add: detect_sorts_generated generated_const_three_quarters unit_tape_def
      numeral_3_eq_3 severity_tier_def)

subsection \<open>Severity, confidence and location of a detection\<close>

lemma uniform_in_range:
  fixes lo hi u :: real
  assumes "0 \<le> u" and "u < 1" and "lo < hi"
  shows "lo \<le> lo + (hi - lo) * u \<and> lo + (hi - lo) * u < hi"
proof -
  have "0 \<le> (hi - lo) * u" using assms by simp
  moreover have "(hi - lo) * u < (hi - lo) * 1"
    using assms by (intro mult_strict_left_mono) simp_all
  ultimately show ?thesis by simp
qed

lemma create_pest_detection_low:
  assumes "g 0 < 0.4"
  shows "\<exists>ty r g'. create_pest_detection t h w g =
     Inr (\<lparr>det_type = ty, confidence = 0.6 + (0.8 - 0.6) * g 1, severity = ''Low'',
           location_x = 0 + (real w - 0) * g 2, location_y = 0 + (real h - 0) * g 3,
           recommendation = r\<rparr>, g')"
  using assms
  by (simp add: create_pest_detection_def random_choice_p_def severities_def py_getitem_def
      confidence_ranges_def random_uniform_def random_choice_def eval_nat_numeral)

lemma create_pest_detection_medium:
  assumes "\<not> g 0 < 0.4" and "g 0 < 0.8"
  shows "\<exists>ty r g'. create_pest_detection t h w g =
     Inr (\<lparr>det_type = ty, confidence = 0.7 + (0.9 - 0.7) * g 1, severity = ''Medium'',
           location_x = 0 + (real w - 0) * g 2, location_y = 0 + (real h - 0) * g 3,
           recommendation = r\<rparr>, g')"
  using assms
  by (simp add: create_pest_detection_def random_choice_p_def severities_def py_getitem_def
      confidence_ranges_def random_uniform_def random_choice_def eval_nat_numeral)

lemma create_pest_detection_high:
  assumes "\<not> g 0 < 0.8" and "g 0 < 1"
  shows "\<exists>ty r g'. create_pest_detection t h w g =
     Inr (\<lparr>det_type = ty, confidence = 0.8 + (0.95 - 0.8) * g 1, severity = ''High'',
           location_x = 0 + (real w - 0) * g 2, location_y = 0 + (real h - 0) * g 3,
           recommendation = r\<rparr>, g')"
  using assms
  by (simp add: create_pest_detection_def random_choice_p_def severities_def py_getitem_def
      confidence_ranges_def random_uniform_def random_choice_def eval_nat_numeral)

lemma create_pest_detection_well_formed:
  assumes u: "unit_tape g" and c: "create_pest_detection t h w g = Inr (d, g')"
  shows "detection_well_formed h w d"
proof -
  have g0: "0 \<le> g 0 \<and> g 0 < 1" and g1: "0 \<le> g 1 \<and> g 1 < 1"
    and g2: "0 \<le> g 2 \<and> g 2 < 1" and g3: "0 \<le> g 3 \<and> g 3 < 1"
    using u by (simp_all add: unit_tape_def)
  have x: "0 \<le> 0 + (real w - 0) * g 2 \<and> 0 + (real w - 0) * g 2 \<le> real w"
    using g2 by (simp add: mult_left_le)
  have y: "0 \<le> 0 + (real h - 0) * g 3 \<and> 0 + (real h - 0) * g 3 \<le> real h"
    using g3 by (simp add: mult_left_le)
  have low: "0.6 \<le> 0.6 + (0.8 - 0.6) * g 1 \<and> 0.6 + (0.8 - 0.6) * g 1 < (0.8::real)"
    using g1 by (intro uniform_in_range) simp_all
  have med: "0.7 \<le> 0.7 + (0.9 - 0.7) * g 1 \<and> 0.7 + (0.9 - 0.7) * g 1 < (0.9::real)"
    using g1 by (intro uniform_in_range) simp_all
  have high: "0.8 \<le> 0.8 + (0.95 - 0.8) * g 1 \<and> 0.8 + (0.95 - 0.8) * g 1 < (0.95::real)"
    using g1 by (intro uniform_in_range) simp_all
  consider "g 0 < 0.4" | "\<not> g 0 < 0.4" "g 0 < 0.8" | "\<not> g 0 < 0.8" "g 0 < 1"
    using g0 by linarith
  then show ?thesis
  proof cases
    case 1
    from create_pest_detection_low [of g t h w] 1 c obtain ty r where
      "d = \<lparr>det_type = ty, confidence = 0.6 + (0.8 - 0.6) * g 1, severity = ''Low'',
           location_x = 0 + (real w - 0) * g 2, location_y = 0 + (real h - 0) * g 3,
           recommendation = r\<rparr>" by auto
    then show ?thesis
      unfolding detection_well_formed_def using low x y by simp
  next
    case 2
    from create_pest_detection_medium [of g t h w] 2 c obtain ty r where
      "d = \<lparr>det_type = ty, confidence = 0.7 + (0.9 - 0.7) * g 1, severity = ''Medium'',
           location_x = 0 + (real w - 0) * g 2, location_y = 0 + (real h - 0) * g 3,
           recommendation = r\<rparr>" by auto
    then show ?thesis
      unfolding detection_well_formed_def using med x y by simp
  next
    case 3
    from create_pest_detection_high [of g t h w] 3 c obtain ty r where
      "d = \<lparr>det_type = ty, confidence = 0.8 + (0.95 - 0.8) * g 1, severity = ''High'',
           location_x = 0 + (real w - 0) * g 2, location_y = 0 + (real h - 0) * g 3,
           recommendation = r\<rparr>" by auto
    then show ?thesis
      unfolding detection_well_formed_def using high x y by simp
  qed
qed


lemma detect_loop_well_formed:
  assumes "unit_tape g" and "detect_loop k h w ds g = Inr (ds', g')"
    and "\<And>d. d \<in> set ds \<Longrightarrow> detection_well_formed h w d"
  shows "\<And>d. d \<in> set ds' \<Longrightarrow> detection_well_formed h w d"
  using assms
proof (induction k arbitrary: ds g)
  case 0
  then show ?case by simp
next
  case (Suc k)
  let ?t = "fst (random_choice (map fst pest_database) g)"
  let ?g6 = "rng_tail (rng_tail (rng_tail (rng_tail (rng_tail (rng_tail g)))))"
  have g1: "snd (random_choice (map fst pest_database) g) = rng_tail g"
    by (simp add: random_choice_def)
  have u1: "unit_tape (rng_tail g)" using Suc.prems(2) by (rule unit_tape_tail)
  then have "rng_tail g 0 < 1" using unit_tape_head by blast
  then obtain x where c: "create_pest_detection ?t h w (rng_tail g) = Inr (x, ?g6)"
    using create_pest_detection_ok by blast
  have wf: "detection_well_formed h w x"
    using u1 c by (rule create_pest_detection_well_formed)
  have u6: "unit_tape ?g6"
    using Suc.prems(2) by (simp add: unit_tape_def)
  have rest: "detect_loop k h w (ds @ [x]) ?g6 = Inr (ds', g')"
    using Suc.prems(3)
    unfolding detect_loop.simps split_def g1 Let_def c py_bind_Inr fst_conv snd_conv .
  have "\<And>y. y \<in> set (ds @ [x]) \<Longrightarrow> detection_well_formed h w y"
    using Suc.prems(4) wf by auto
  from Suc.IH [OF _ u6 rest this] Suc.prems(1) show ?case by blast
qed

lemma detections_well_formed:
  assumes "unit_tape g" and "unpack_height_width data = Inr (h, w)"
    and "d \<in> set (fst (detect data g))"
  shows "detection_well_formed h w d"
proof -
  let ?n = "nat (fst (random_randint 0 4 g))"
  let ?g1 = "snd (random_randint 0 4 g)"
  have u1: "unit_tape ?g1"
    using assms(1) by (simp add: random_randint_def unit_tape_tail)
  obtain ds g2 where loop: "detect_loop ?n h w [] ?g1 = Inr (ds, g2)"
    using detect_loop_ok [OF u1] by blast
  have gen: "generated_detections data g = ds"
    using assms(2) loop by (simp add: generated_detections_def)
  have "d \<in> set ds"
    using assms(3) by (simp add: detect_sorts_generated gen)
  with detect_loop_well_formed [OF u1 loop] show ?thesis by simp
qed

subsection \<open>A run with mixed severities\<close>

lemma generated_mixed_tape:
  "generated_detections flat_field_cube mixed_tape =
     [\<lparr>det_type = ''Spider Mites'', confidence = 39 / 50, severity = ''Low'',
       location_x = 2304 / 5, location_y = 2304 / 5,
       recommendation = ''Monitor for natural predators''\<rparr>,
      \<lparr>det_type = ''Spider Mites'', confidence = 187 / 200, severity = ''High'',
       location_x = 256, location_y = 2304 / 5,
       recommendation = ''Monitor for natural predators''\<rparr>,
      \<lparr>det_type = ''Spider Mites'', confidence = 187 / 200, severity = ''High'',
       location_x = 2304 / 5, location_y = 2304 / 5,
       recommendation = ''Monitor for natural predators''\<rparr>]"
  by (simp add: generated_detections_def flat_field_cube_def unpack_height_width_def
      random_randint_def numeral_3_eq_3 random_choice_def create_pest_detection_def
      random_choice_p_def severities_def py_getitem_def confidence_ranges_def
      random_uniform_def split_def Let_def mixed_tape_def pest_database_def
      py_get_def pest_recommendations_def title_spider_mites)

lemma detect_mixed_tape:
  "map (\<lambda>d. (severity d, location_x d)) (fst (detect flat_field_cube mixed_tape))
     = [(''High'', 256), (''High'', 2304 / 5), (''Low'', 2304 / 5)]"
  by (simp add: detect_sorts_generated generated_mixed_tape severity_tier_def)

text \<open>
  On that run the two High detections come first, in the order of their generation, and
  the Low one, generated first, comes last.
\<close>

theorem detections_sorted_by_severity_stable_witness:
  "map location_x (filter (\<lambda>d. severity d = ''High'') (fst (detect flat_field_cube mixed_tape)))
     = [256, 2304 / 5]
   \<and> map severity (generated_detections flat_field_cube mixed_tape) = [''Low'', ''High'', ''High'']"
proof -
  have "filter (\<lambda>d. severity d = ''High'') (fst (detect flat_field_cube mixed_tape))
      = filter (\<lambda>d. severity d = ''High'') (generated_detections flat_field_cube mixed_tape)"
    using detections_sorted_by_severity_stable [of flat_field_cube mixed_tape] by blast
  then show ?thesis
    by (simp add: generated_mixed_tape)
qed

end
